theory Spec2Isabelle
  imports Main "HOL-Library.Word"
begin

unbundle bit_operations_syntax

section \<open>Machine types and process aborts\<close>

text \<open>
  The embedding follows memory/build/mozjemalloc.cpp on an LP64 target
  (SIZEOF_PTR_2POW = 3): size_t and uintptr_t are 64-bit words whose arithmetic
  wraps, and nullptr is the word 0.
\<close>

type_synonym size_t = "64 word"
type_synonym ptr = "64 word"

text \<open>
  A call that does not return normally is a value: MOZ_CRASH, a failed
  MOZ_DIAGNOSTIC_ASSERT (the build has MOZ_DIAGNOSTIC_ASSERT_ENABLED), the integer
  division by zero and the other behaviour that C++ leaves undefined, and a loop that
  does not end.
\<close>

datatype abort = MozCrash | DiagnosticAssert | DivideByZero | UndefinedBehaviour | Diverges

definition nullptr :: ptr where
  "nullptr = 0"

definition sizeof_ptr :: size_t where
  "sizeof_ptr = 8"

definition EINVAL :: int where
  "EINVAL = 22"

definition ENOMEM :: int where
  "ENOMEM = 12"

section \<open>Build constants\<close>

text \<open>
  The constants of a non-Windows LP64 build with MALLOC_STATIC_PAGESIZE (4 KiB pages,
  1 MiB chunks, 16-byte quantum) and MOZ_DIAGNOSTIC_ASSERT_ENABLED: the diagnostic
  assertions are checked, and arena_run_t carries its magic field, so that
  sizeof(arena_run_t) is 32 (magic, padding, bin, regs_minelm, nfree, one mask word,
  padding).  rb.h is not part of the sources at hand: a RedBlackTreeNode is taken to be
  two pointers, which gives the sizes of arena_chunk_map_t and arena_chunk_t below and
  the offset of the map array in a chunk header.  MALLOC_DECOMMIT is a build switch of
  the source; the functions that test it take it as their first argument \<open>dc\<close>.
\<close>

definition QUANTUM_2POW_MIN :: nat where
  "QUANTUM_2POW_MIN = 4"

definition SIZEOF_INT_2POW :: nat where
  "SIZEOF_INT_2POW = 2"

definition TINY_MIN_2POW :: nat where
  "TINY_MIN_2POW = 3"

definition SMALL_MAX_2POW_DEFAULT :: nat where
  "SMALL_MAX_2POW_DEFAULT = 9"

definition CHUNK_2POW_DEFAULT :: nat where
  "CHUNK_2POW_DEFAULT = 20"

definition DIRTY_MAX_DEFAULT :: size_t where
  "DIRTY_MAX_DEFAULT = push_bit 8 1"

definition RUN_BFP :: nat where
  "RUN_BFP = 12"

definition RUN_MAX_OVRHD :: size_t where
  "RUN_MAX_OVRHD = 0x3d"

definition RUN_MAX_OVRHD_RELAX :: size_t where
  "RUN_MAX_OVRHD_RELAX = 0x1800"

definition CHUNK_RECYCLE_LIMIT :: size_t where
  "CHUNK_RECYCLE_LIMIT = 128"

definition quantum :: size_t where
  "quantum = push_bit QUANTUM_2POW_MIN 1"

definition quantum_mask :: size_t where
  "quantum_mask = quantum - 1"

definition small_min :: size_t where
  "small_min = drop_bit 1 quantum + 1"

definition small_max :: size_t where
  "small_max = push_bit SMALL_MAX_2POW_DEFAULT 1"

definition ntbins :: nat where
  "ntbins = QUANTUM_2POW_MIN - TINY_MIN_2POW"

definition nqbins :: nat where
  "nqbins = unat (drop_bit QUANTUM_2POW_MIN small_max)"

definition pagesize_2pow :: nat where
  "pagesize_2pow = 12"

definition pagesize :: size_t where
  "pagesize = push_bit pagesize_2pow 1"

definition pagesize_mask :: size_t where
  "pagesize_mask = pagesize - 1"

definition bin_maxclass :: size_t where
  "bin_maxclass = drop_bit 1 pagesize"

definition nsbins :: nat where
  "nsbins = pagesize_2pow - SMALL_MAX_2POW_DEFAULT - 1"

definition chunksize :: size_t where
  "chunksize = push_bit CHUNK_2POW_DEFAULT 1"

definition chunksize_mask :: size_t where
  "chunksize_mask = chunksize - 1"

definition chunk_npages :: size_t where
  "chunk_npages = drop_bit pagesize_2pow chunksize"

definition sizeof_unsigned :: size_t where
  "sizeof_unsigned = 4"

definition sizeof_arena_run_t :: size_t where
  "sizeof_arena_run_t = 32"

definition sizeof_arena_chunk_map_t :: size_t where
  "sizeof_arena_chunk_map_t = 24"

definition sizeof_arena_chunk_t :: size_t where
  "sizeof_arena_chunk_t = 56"

definition offsetof_map :: size_t where
  "offsetof_map = 32"

definition calculate_arena_header_size :: size_t where
  "calculate_arena_header_size =
     sizeof_arena_chunk_t + sizeof_arena_chunk_map_t * (chunk_npages - 1)"

definition arena_chunk_header_npages :: size_t where
  "arena_chunk_header_npages =
     drop_bit pagesize_2pow calculate_arena_header_size
       + (if calculate_arena_header_size AND pagesize_mask \<noteq> 0 then 1 else 0)"

definition arena_maxclass :: size_t where
  "arena_maxclass = chunksize - push_bit pagesize_2pow arena_chunk_header_npages"

definition recycle_limit :: size_t where
  "recycle_limit = CHUNK_RECYCLE_LIMIT * chunksize"

definition kAllocJunk :: "8 word" where
  "kAllocJunk = 0xe4"

definition kAllocPoison :: "8 word" where
  "kAllocPoison = 0xe5"

definition opt_junk :: bool where
  "opt_junk = False"

definition opt_zero :: bool where
  "opt_zero = False"

definition ARENA_RUN_MAGIC :: "32 word" where
  "ARENA_RUN_MAGIC = 0x384adf93"

definition CHUNK_MAP_MADVISED :: size_t where
  "CHUNK_MAP_MADVISED = 0x40"

definition CHUNK_MAP_DECOMMITTED :: size_t where
  "CHUNK_MAP_DECOMMITTED = 0x20"

definition CHUNK_MAP_MADVISED_OR_DECOMMITTED :: size_t where
  "CHUNK_MAP_MADVISED_OR_DECOMMITTED = CHUNK_MAP_MADVISED OR CHUNK_MAP_DECOMMITTED"

definition CHUNK_MAP_KEY :: size_t where
  "CHUNK_MAP_KEY = 0x10"

definition CHUNK_MAP_DIRTY :: size_t where
  "CHUNK_MAP_DIRTY = 0x08"

definition CHUNK_MAP_ZEROED :: size_t where
  "CHUNK_MAP_ZEROED = 0x04"

definition CHUNK_MAP_LARGE :: size_t where
  "CHUNK_MAP_LARGE = 0x02"

definition CHUNK_MAP_ALLOCATED :: size_t where
  "CHUNK_MAP_ALLOCATED = 0x01"

section \<open>Utility macros\<close>

definition CHUNK_ADDR2BASE :: "ptr \<Rightarrow> ptr" where
  "CHUNK_ADDR2BASE a = a AND NOT chunksize_mask"

definition CHUNK_ADDR2OFFSET :: "ptr \<Rightarrow> size_t" where
  "CHUNK_ADDR2OFFSET a = a AND chunksize_mask"

definition CHUNK_CEILING :: "size_t \<Rightarrow> size_t" where
  "CHUNK_CEILING s = (s + chunksize_mask) AND NOT chunksize_mask"

definition QUANTUM_CEILING :: "size_t \<Rightarrow> size_t" where
  "QUANTUM_CEILING a = (a + quantum_mask) AND NOT quantum_mask"

definition PAGE_CEILING :: "size_t \<Rightarrow> size_t" where
  "PAGE_CEILING s = (s + pagesize_mask) AND NOT pagesize_mask"

definition ALIGNMENT_ADDR2OFFSET :: "ptr \<Rightarrow> size_t \<Rightarrow> size_t" where
  "ALIGNMENT_ADDR2OFFSET a alignment = a AND (alignment - 1)"

definition ALIGNMENT_CEILING :: "size_t \<Rightarrow> size_t \<Rightarrow> size_t" where
  "ALIGNMENT_CEILING s alignment = (s + (alignment - 1)) AND NOT (alignment - 1)"

definition pow2_ceil :: "size_t \<Rightarrow> size_t" where
  "pow2_ceil x0 =
     (let x = x0 - 1;
          x = x OR drop_bit 1 x;
          x = x OR drop_bit 2 x;
          x = x OR drop_bit 4 x;
          x = x OR drop_bit 8 x;
          x = x OR drop_bit 16 x;
          x = x OR drop_bit 32 x
      in x + 1)"

text \<open>ffs(3) on an int: the 1-based index of the lowest set bit, 0 for 0.\<close>

definition ffs :: "32 word \<Rightarrow> nat" where
  "ffs x = (case find (bit x) [0..<32] of None \<Rightarrow> 0 | Some i \<Rightarrow> i + 1)"

section \<open>Size classes\<close>

text \<open>MozJemalloc::malloc_good_size.\<close>

definition malloc_good_size :: "size_t \<Rightarrow> size_t" where
  "malloc_good_size aSize =
     (if aSize < small_min then
        (let sz = pow2_ceil aSize
         in if sz < push_bit TINY_MIN_2POW 1 then push_bit TINY_MIN_2POW 1 else sz)
      else if aSize \<le> small_max then QUANTUM_CEILING aSize
      else if aSize \<le> bin_maxclass then pow2_ceil aSize
      else if aSize \<le> arena_maxclass then PAGE_CEILING aSize
      else PAGE_CEILING aSize)"

text \<open>
  The size rounding and bin selection at the head of arena_t::MallocSmall: the rounded
  size and the index into mBins.
\<close>

definition small_size_bin :: "size_t \<Rightarrow> size_t \<times> nat" where
  "small_size_bin aSize =
     (if aSize < small_min then
        (let sz = pow2_ceil aSize;
             b = ffs (ucast (drop_bit (TINY_MIN_2POW + 1) sz))
         in (if sz < push_bit TINY_MIN_2POW 1 then push_bit TINY_MIN_2POW 1 else sz, b))
      else if aSize \<le> small_max then
        (let sz = QUANTUM_CEILING aSize
         in (sz, nat (int ntbins + int (unat (drop_bit QUANTUM_2POW_MIN sz)) - 1)))
      else
        (let sz = pow2_ceil aSize
         in (sz, nat (int ntbins + int nqbins
                      + (int (ffs (ucast (drop_bit SMALL_MAX_2POW_DEFAULT sz))) - 2)))))"

section \<open>AlignedAllocator\<close>

text \<open>
  AlignedAllocator is a template over the memalign function it wraps, so the model
  takes memalign as an argument: a state transformer returning the pointer (or an
  abort).  posix_memalign receives the current contents of *aMemPtr and returns the
  error code, the contents of *aMemPtr afterwards and the state.
\<close>

definition is_power_of_two :: "size_t \<Rightarrow> bool" where
  "is_power_of_two a = (\<exists>k \<in> {0..<64}. a = 2 ^ k)"

definition posix_memalign ::
  "('s \<Rightarrow> size_t \<Rightarrow> size_t \<Rightarrow> abort + (ptr \<times> 's)) \<Rightarrow> 's \<Rightarrow> ptr \<Rightarrow> size_t \<Rightarrow> size_t
    \<Rightarrow> abort + (int \<times> ptr \<times> 's)" where
  "posix_memalign memalign s aMemPtr aAlignment aSize =
     (if ((aAlignment - 1) AND aAlignment) \<noteq> 0 \<or> aAlignment < sizeof_ptr
      then Inr (EINVAL, aMemPtr, s)
      else case memalign s aAlignment aSize of
             Inl e \<Rightarrow> Inl e
           | Inr (result, s') \<Rightarrow>
               if result = nullptr then Inr (ENOMEM, aMemPtr, s')
               else Inr (0, result, s'))"

definition aligned_alloc ::
  "('s \<Rightarrow> size_t \<Rightarrow> size_t \<Rightarrow> abort + (ptr \<times> 's)) \<Rightarrow> 's \<Rightarrow> size_t \<Rightarrow> size_t
    \<Rightarrow> abort + (ptr \<times> 's)" where
  "aligned_alloc memalign s aAlignment aSize =
     (if aAlignment = 0 then Inl DivideByZero
      else if aSize mod aAlignment \<noteq> 0 then Inr (nullptr, s)
      else memalign s aAlignment aSize)"

text \<open>A memalign that always fails, used to run the wrappers on concrete inputs.\<close>

definition memalign_oom :: "unit \<Rightarrow> size_t \<Rightarrow> size_t \<Rightarrow> abort + (ptr \<times> unit)" where
  "memalign_oom s a n = Inr (nullptr, s)"

section \<open>State\<close>

datatype ChunkType = UNKNOWN_CHUNK | ZEROED_CHUNK | ARENA_CHUNK | HUGE_CHUNK | RECYCLED_CHUNK

record extent_node =
  addr :: ptr
  esize :: size_t
  chunk_type :: ChunkType

record arena_chunk =
  ndirty :: size_t
  map_bits :: "(nat \<Rightarrow> size_t)"

record arena_run =
  magic :: "32 word"
  bin :: nat
  regs_minelm :: "32 word"
  nfree :: "32 word"
  regs_mask :: "32 word list"

record arena_bin =
  runcur :: ptr
  runs :: "ptr list"
  reg_size :: size_t
  run_size :: size_t
  nregs :: "32 word"
  regs_mask_nelms :: "32 word"
  reg0_offset :: "32 word"
  curruns :: "64 word"

record heap =
  mem :: "ptr \<Rightarrow> 8 word"
  vm_mapped :: "(ptr \<times> size_t) list"
  os_tape :: "ptr list"
  base_budget :: nat
  base_nodes :: nat
  malloc_initialized :: bool
  opt_dirty_max :: size_t
  gChunkRTree :: "64 word \<Rightarrow> ptr option"
  chunks_mmap :: "extent_node list"
  recycled_size :: size_t
  huge :: "extent_node list"
  huge_nmalloc :: "64 word"
  huge_ndalloc :: "64 word"
  huge_allocated :: size_t
  huge_mapped :: size_t
  chunk_hdr :: "ptr \<Rightarrow> arena_chunk option"
  run_hdr :: "ptr \<Rightarrow> arena_run option"
  mStats_mapped :: size_t
  mStats_committed :: size_t
  mStats_allocated_small :: size_t
  mStats_allocated_large :: size_t
  mChunksDirty :: "ptr list"
  mSpare :: ptr
  mNumDirty :: size_t
  mMaxDirty :: size_t
  mRunsAvail :: "ptr list"
  mBins :: "arena_bin list"

section \<open>The operating system\<close>

definition memset :: "heap \<Rightarrow> ptr \<Rightarrow> 8 word \<Rightarrow> size_t \<Rightarrow> heap" where
  "memset s p c n = s\<lparr>mem := (\<lambda>a. if a - p < n then c else mem s a)\<rparr>"

definition memcpy :: "heap \<Rightarrow> ptr \<Rightarrow> ptr \<Rightarrow> size_t \<Rightarrow> heap" where
  "memcpy s dst src n = s\<lparr>mem := (\<lambda>a. if a - dst < n then mem s (src + (a - dst)) else mem s a)\<rparr>"

definition region_free :: "(ptr \<times> size_t) list \<Rightarrow> ptr \<Rightarrow> size_t \<Rightarrow> bool" where
  "region_free m a n = list_all (\<lambda>(b, k). a + n \<le> b \<or> b + k \<le> a) m"

definition region_cut :: "ptr \<Rightarrow> size_t \<Rightarrow> (ptr \<times> size_t) \<Rightarrow> (ptr \<times> size_t) list" where
  "region_cut a n r =
     (case r of (b, k) \<Rightarrow>
        if a + n \<le> b \<or> b + k \<le> a then [(b, k)]
        else (if b < a then [(b, a - b)] else [])
           @ (if a + n < b + k then [(a + n, (b + k) - (a + n))] else []))"

definition pages_map :: "heap \<Rightarrow> size_t \<Rightarrow> ptr \<times> heap" where
  "pages_map s sz =
     (case os_tape s of
        [] \<Rightarrow> (nullptr, s)
      | a # tape \<Rightarrow>
          if a \<noteq> 0 \<and> a AND pagesize_mask = 0 \<and> a < a + sz
             \<and> region_free (vm_mapped s) a sz
          then (a, memset (s\<lparr>os_tape := tape, vm_mapped := (a, sz) # vm_mapped s\<rparr>) a 0 sz)
          else (nullptr, s\<lparr>os_tape := tape\<rparr>))"

definition pages_unmap :: "heap \<Rightarrow> ptr \<Rightarrow> size_t \<Rightarrow> heap" where
  "pages_unmap s a sz = s\<lparr>vm_mapped := concat (map (region_cut a sz) (vm_mapped s))\<rparr>"

definition pages_decommit :: "heap \<Rightarrow> ptr \<Rightarrow> size_t \<Rightarrow> heap" where
  "pages_decommit s a sz = s"

definition pages_commit :: "heap \<Rightarrow> ptr \<Rightarrow> size_t \<Rightarrow> heap" where
  "pages_commit s a sz = memset s a 0 sz"

definition madvise_dontneed :: "heap \<Rightarrow> ptr \<Rightarrow> size_t \<Rightarrow> heap" where
  "madvise_dontneed s a sz = memset s a 0 sz"

definition madvise_free :: "heap \<Rightarrow> ptr \<Rightarrow> size_t \<Rightarrow> heap" where
  "madvise_free s a sz = s"

definition pages_trim :: "heap \<Rightarrow> ptr \<Rightarrow> size_t \<Rightarrow> size_t \<Rightarrow> size_t \<Rightarrow> ptr \<times> heap" where
  "pages_trim s a alloc_size leadsize sz =
     (let ret = a + leadsize;
          trailsize = alloc_size - leadsize - sz;
          s1 = (if leadsize \<noteq> 0 then pages_unmap s a leadsize else s);
          s2 = (if trailsize \<noteq> 0 then pages_unmap s1 (ret + sz) trailsize else s1)
      in (ret, s2))"

lemma pages_map_tape: "pages_map s sz = (p, s1) \<Longrightarrow> p \<noteq> nullptr \<Longrightarrow> length (os_tape s1) < length (os_tape s)"
  by (auto simp: pages_map_def memset_def nullptr_def split: list.splits if_splits)

lemma pages_unmap_tape: "os_tape (pages_unmap s a n) = os_tape s"
  by (simp add: pages_unmap_def)

lemma pages_trim_tape: "pages_trim s a al l n = (r, s1) \<Longrightarrow> os_tape s1 = os_tape s"
  by (auto simp: pages_trim_def Let_def pages_unmap_tape split: if_splits)

function chunk_alloc_mmap_slow_loop :: "heap \<Rightarrow> size_t \<Rightarrow> size_t \<Rightarrow> size_t \<Rightarrow> ptr \<times> heap" where
  "chunk_alloc_mmap_slow_loop s sz alignment alloc_size =
     (case pages_map s alloc_size of (pages, s1) \<Rightarrow>
        if pages = nullptr then (nullptr, s1)
        else (let leadsize = ALIGNMENT_CEILING pages alignment - pages
              in case pages_trim s1 pages alloc_size leadsize sz of (ret, s2) \<Rightarrow>
                   if ret = nullptr then chunk_alloc_mmap_slow_loop s2 sz alignment alloc_size
                   else (ret, s2)))"
  by pat_completeness auto

termination chunk_alloc_mmap_slow_loop
  apply (relation "measure (\<lambda>(s, sz, al, asz). length (os_tape s))")
   apply simp
  apply (auto dest!: pages_map_tape [OF sym] pages_trim_tape [OF sym])
  done

declare chunk_alloc_mmap_slow_loop.simps [simp del]


section \<open>Base allocator and chunk-owner radix tree\<close>

text \<open>
  The base allocator and the interior nodes of the radix tree are kept abstract: the
  free list of extent nodes is its length, fresh base memory is a budget that an
  allocation uses up, and the radix tree is the map from chunk number to the stored
  value, where a slot that was never created needs base memory.
\<close>

definition base_alloc :: "heap \<Rightarrow> bool \<times> heap" where
  "base_alloc s =
     (if base_budget s = 0 then (False, s) else (True, s\<lparr>base_budget := base_budget s - 1\<rparr>))"

definition base_node_alloc :: "heap \<Rightarrow> bool \<times> heap" where
  "base_node_alloc s =
     (if base_nodes s \<noteq> 0 then (True, s\<lparr>base_nodes := base_nodes s - 1\<rparr>)
      else base_alloc s)"

definition base_node_dealloc :: "heap \<Rightarrow> heap" where
  "base_node_dealloc s = s\<lparr>base_nodes := base_nodes s + 1\<rparr>"

definition rtree_key :: "ptr \<Rightarrow> 64 word" where
  "rtree_key a = drop_bit CHUNK_2POW_DEFAULT a"

definition rtree_Get :: "heap \<Rightarrow> ptr \<Rightarrow> ptr" where
  "rtree_Get s a = (case gChunkRTree s (rtree_key a) of None \<Rightarrow> nullptr | Some v \<Rightarrow> v)"

definition rtree_Set :: "heap \<Rightarrow> ptr \<Rightarrow> ptr \<Rightarrow> bool \<times> heap" where
  "rtree_Set s a v =
     (case gChunkRTree s (rtree_key a) of
        Some _ \<Rightarrow> (True, s\<lparr>gChunkRTree := (gChunkRTree s)(rtree_key a \<mapsto> v)\<rparr>)
      | None \<Rightarrow>
          (case base_alloc s of (ok, s1) \<Rightarrow>
             if ok then (True, s1\<lparr>gChunkRTree := (gChunkRTree s1)(rtree_key a \<mapsto> v)\<rparr>)
             else (False, s1)))"

definition rtree_Unset :: "heap \<Rightarrow> ptr \<Rightarrow> bool \<times> heap" where
  "rtree_Unset s a = rtree_Set s a nullptr"

section \<open>Chunk management\<close>

text \<open>
  The two red-black trees of recycled chunks hold the same nodes; the model keeps the
  nodes in one list and answers the tree queries by their orderings
  (ExtentTreeSzTrait: size then address; ExtentTreeTrait: address).
\<close>

definition min_by :: "('a \<Rightarrow> 'a \<Rightarrow> bool) \<Rightarrow> 'a list \<Rightarrow> 'a option" where
  "min_by le xs =
     fold (\<lambda>x acc. case acc of None \<Rightarrow> Some x | Some y \<Rightarrow> if le y x then Some y else Some x) xs None"

definition szad_le :: "extent_node \<Rightarrow> extent_node \<Rightarrow> bool" where
  "szad_le a b = (esize a < esize b \<or> (esize a = esize b \<and> addr a \<le> addr b))"

definition ad_le :: "extent_node \<Rightarrow> extent_node \<Rightarrow> bool" where
  "ad_le a b = (addr a \<le> addr b)"

definition szad_SearchOrNext :: "extent_node list \<Rightarrow> size_t \<Rightarrow> extent_node option" where
  "szad_SearchOrNext t sz = min_by szad_le (filter (\<lambda>n. sz \<le> esize n) t)"

definition ad_SearchOrNext :: "extent_node list \<Rightarrow> ptr \<Rightarrow> extent_node option" where
  "ad_SearchOrNext t a = min_by ad_le (filter (\<lambda>n. a \<le> addr n) t)"

definition ad_Prev :: "extent_node list \<Rightarrow> ptr \<Rightarrow> extent_node option" where
  "ad_Prev t a = min_by (\<lambda>x y. ad_le y x) (filter (\<lambda>n. addr n < a) t)"

definition ad_Search :: "extent_node list \<Rightarrow> ptr \<Rightarrow> extent_node option" where
  "ad_Search t a = find (\<lambda>n. addr n = a) t"

definition pages_purge :: "bool \<Rightarrow> heap \<Rightarrow> ptr \<Rightarrow> size_t \<Rightarrow> bool \<Rightarrow> bool \<times> heap" where
  "pages_purge dc s a len force_zero =
     (if dc then (True, pages_decommit s a len)
      else (True, madvise_dontneed s a len))"

definition chunk_ensure_zero :: "heap \<Rightarrow> ptr \<Rightarrow> size_t \<Rightarrow> bool \<Rightarrow> heap" where
  "chunk_ensure_zero s p sz zeroed = (if zeroed = False then memset s p 0 sz else s)"

definition chunk_record :: "bool \<Rightarrow> heap \<Rightarrow> ptr \<Rightarrow> size_t \<Rightarrow> ChunkType \<Rightarrow> heap" where
  "chunk_record dc s chunk sz ct0 =
     (case (if ct0 \<noteq> ZEROED_CHUNK
            then (case pages_purge dc s chunk sz (ct0 = HUGE_CHUNK) of
                    (z, s1) \<Rightarrow> (if z then ZEROED_CHUNK else ct0, s1))
            else (ct0, s)) of
        (ct, s1) \<Rightarrow>
     (case base_node_alloc s1 of
        (xnode, s2) \<Rightarrow>
     (let key_addr = chunk + sz;
          t = chunks_mmap s2;
          fwd = (case ad_SearchOrNext t key_addr of
                   Some n \<Rightarrow> if addr n = key_addr then Some n else None
                 | None \<Rightarrow> None)
      in
      if fwd = None \<and> \<not> xnode then s2
      else
        (let node = (case fwd of
                       Some n \<Rightarrow> n\<lparr>addr := chunk, esize := esize n + sz,
                                   chunk_type := (if chunk_type n \<noteq> ct then RECYCLED_CHUNK
                                                  else chunk_type n)\<rparr>
                     | None \<Rightarrow> \<lparr>addr = chunk, esize = sz, chunk_type = ct\<rparr>);
             t1 = (case fwd of Some n \<Rightarrow> remove1 n t | None \<Rightarrow> t);
             xnode_left = (xnode \<and> fwd \<noteq> None);
             bwd = (case ad_Prev t1 (addr node) of
                      Some p \<Rightarrow> if addr p + esize p = chunk then Some p else None
                    | None \<Rightarrow> None);
             node2 = (case bwd of
                        Some p \<Rightarrow> node\<lparr>addr := addr p, esize := esize node + esize p,
                                      chunk_type := (if chunk_type node \<noteq> chunk_type p
                                                     then RECYCLED_CHUNK else chunk_type node)\<rparr>
                      | None \<Rightarrow> node);
             t2 = (case bwd of Some p \<Rightarrow> remove1 p t1 | None \<Rightarrow> t1);
             s3 = s2\<lparr>chunks_mmap := node2 # t2, recycled_size := recycled_size s2 + sz\<rparr>;
             s4 = (if xnode_left then base_node_dealloc s3 else s3);
             s5 = (if bwd \<noteq> None then base_node_dealloc s4 else s4)
         in s5))))"

definition chunk_dealloc :: "bool \<Rightarrow> heap \<Rightarrow> ptr \<Rightarrow> size_t \<Rightarrow> ChunkType \<Rightarrow> heap" where
  "chunk_dealloc dc s chunk sz ct =
     (let s1 = snd (rtree_Unset s chunk);
          recycled_so_far = recycled_size s1
      in if recycled_so_far < recycle_limit then
           (let recycle_remaining = recycle_limit - recycled_so_far
            in if sz > recycle_remaining
               then chunk_record dc (snd (pages_trim s1 chunk sz 0 recycle_remaining))
                      chunk recycle_remaining ct
               else chunk_record dc s1 chunk sz ct)
         else pages_unmap s1 chunk sz)"

definition chunk_recycle ::
  "bool \<Rightarrow> heap \<Rightarrow> size_t \<Rightarrow> size_t \<Rightarrow> bool \<Rightarrow> ptr \<times> bool \<times> heap" where
  "chunk_recycle dc s sz alignment base =
     (if base then (nullptr, False, s)
      else
        (let alloc_size = sz + alignment - chunksize
         in if alloc_size < sz then (nullptr, False, s)
            else
              (case szad_SearchOrNext (chunks_mmap s) alloc_size of
                 None \<Rightarrow> (nullptr, False, s)
               | Some node \<Rightarrow>
                   (let leadsize = ALIGNMENT_CEILING (addr node) alignment - addr node;
                        trailsize = esize node - leadsize - sz;
                        ret = addr node + leadsize;
                        ct = chunk_type node;
                        zeroed = (ct = ZEROED_CHUNK);
                        t1 = remove1 node (chunks_mmap s);
                        t2 = (if leadsize \<noteq> 0 then node\<lparr>esize := leadsize\<rparr> # t1 else t1);
                        s1 = s\<lparr>chunks_mmap := t2\<rparr>;
                        have_node = (leadsize = 0)
                    in
                    (case (if trailsize \<noteq> 0 \<and> \<not> have_node then base_node_alloc s1
                           else (True, s1)) of
                       (ok, s2) \<Rightarrow>
                         if \<not> ok then (nullptr, zeroed, chunk_dealloc dc s2 ret sz ct)
                         else
                           (let s3 = (if trailsize \<noteq> 0
                                      then s2\<lparr>chunks_mmap :=
                                             \<lparr>addr = ret + sz, esize = trailsize, chunk_type = ct\<rparr>
                                               # chunks_mmap s2\<rparr>
                                      else s2);
                                s4 = s3\<lparr>recycled_size := recycled_size s3 - sz\<rparr>;
                                s5 = (if have_node \<and> trailsize = 0 then base_node_dealloc s4 else s4)
                            in if dc then (ret, True, pages_commit s5 ret sz)
                               else (ret, zeroed, s5)))))))"

definition chunk_alloc_mmap_slow :: "heap \<Rightarrow> size_t \<Rightarrow> size_t \<Rightarrow> ptr \<times> heap" where
  "chunk_alloc_mmap_slow s sz alignment =
     (let alloc_size = sz + alignment - pagesize
      in if alloc_size < sz then (nullptr, s)
         else chunk_alloc_mmap_slow_loop s sz alignment alloc_size)"

definition chunk_alloc_mmap :: "heap \<Rightarrow> size_t \<Rightarrow> size_t \<Rightarrow> ptr \<times> heap" where
  "chunk_alloc_mmap s sz alignment =
     (case pages_map s sz of (ret, s1) \<Rightarrow>
        if ret = nullptr then (nullptr, s1)
        else if ALIGNMENT_ADDR2OFFSET ret alignment \<noteq> 0
             then chunk_alloc_mmap_slow (pages_unmap s1 ret sz) sz alignment
             else (ret, s1))"

definition chunk_alloc ::
  "bool \<Rightarrow> heap \<Rightarrow> size_t \<Rightarrow> size_t \<Rightarrow> bool \<Rightarrow> ptr \<times> bool \<times> heap" where
  "chunk_alloc dc s sz alignment base =
     (case chunk_recycle dc s sz alignment base of (r0, z0, s1) \<Rightarrow>
      (case (if r0 \<noteq> nullptr then (r0, z0, s1)
             else (case chunk_alloc_mmap s1 sz alignment of (r1, s2) \<Rightarrow> (r1, True, s2))) of
         (ret, zeroed, s3) \<Rightarrow>
           if ret \<noteq> nullptr \<and> base = False then
             (case rtree_Set s3 ret ret of (ok, s4) \<Rightarrow>
                if \<not> ok then (nullptr, zeroed, chunk_dealloc dc s4 ret sz UNKNOWN_CHUNK)
                else (ret, zeroed, s4))
           else (ret, zeroed, s3)))"

section \<open>Arena: page map and trees\<close>

text \<open>
  Chunk headers and run headers live in typed stores indexed by their address.  A read
  through a pointer that has no header behind it, an index outside the page map, and a
  red-black tree operation on a node that is already (or not) linked are undefined in
  C++; the model aborts with UndefinedBehaviour there.
\<close>

definition diag_assert :: "bool \<Rightarrow> (abort + 'a) \<Rightarrow> abort + 'a" where
  "diag_assert b k = (if b then k else Inl DiagnosticAssert)"

definition defined :: "bool \<Rightarrow> (abort + 'a) \<Rightarrow> abort + 'a" where
  "defined b k = (if b then k else Inl UndefinedBehaviour)"

definition tree_Insert :: "ptr list \<Rightarrow> ptr \<Rightarrow> abort + ptr list" where
  "tree_Insert t x = (if x \<in> set t then Inl UndefinedBehaviour else Inr (x # t))"

definition tree_Remove :: "ptr list \<Rightarrow> ptr \<Rightarrow> abort + ptr list" where
  "tree_Remove t x = (if x \<in> set t then Inr (remove1 x t) else Inl UndefinedBehaviour)"

definition tree_First :: "ptr list \<Rightarrow> ptr" where
  "tree_First t = (case min_by (\<le>) t of None \<Rightarrow> nullptr | Some x \<Rightarrow> x)"

definition tree_Last :: "ptr list \<Rightarrow> ptr" where
  "tree_Last t = (case min_by (\<ge>) t of None \<Rightarrow> nullptr | Some x \<Rightarrow> x)"

definition mapelm_addr :: "ptr \<Rightarrow> nat \<Rightarrow> ptr" where
  "mapelm_addr chunk i = chunk + offsetof_map + sizeof_arena_chunk_map_t * of_nat i"

definition mapelm_pageind :: "ptr \<Rightarrow> nat" where
  "mapelm_pageind m =
     unat ((m - (CHUNK_ADDR2BASE m + offsetof_map)) div sizeof_arena_chunk_map_t)"

text \<open>
  A chunk header is read through chunk_get: the address must hold a header.  Its page map
  has chunk_npages entries; it is a function of the page index, and every access is
  guarded by the bound.
\<close>

definition chunk_get :: "heap \<Rightarrow> ptr \<Rightarrow> arena_chunk option" where
  "chunk_get s chunk = chunk_hdr s chunk"

definition mapelm_bits :: "heap \<Rightarrow> ptr \<Rightarrow> size_t option" where
  "mapelm_bits s m =
     (case chunk_get s (CHUNK_ADDR2BASE m) of
        None \<Rightarrow> None
      | Some ch \<Rightarrow>
          if mapelm_pageind m < unat chunk_npages
          then Some (map_bits ch (mapelm_pageind m)) else None)"

definition npages_of :: "size_t \<Rightarrow> nat" where
  "npages_of sz = unat (drop_bit pagesize_2pow sz)"

definition page_addr :: "ptr \<Rightarrow> nat \<Rightarrow> ptr" where
  "page_addr chunk i = chunk + push_bit pagesize_2pow (of_nat i)"

definition hdr_npages :: nat where
  "hdr_npages = unat arena_chunk_header_npages"

definition set_size :: "(nat \<Rightarrow> size_t) \<Rightarrow> nat \<Rightarrow> size_t \<Rightarrow> (nat \<Rightarrow> size_t)" where
  "set_size bits i sz = bits(i := sz OR (bits i AND pagesize_mask))"

section \<open>Arena: splitting a run\<close>

text \<open>The inner loop of SplitRun that clears the decommitted/madvised marks of a group.\<close>

function SplitRun_group :: "(nat \<Rightarrow> size_t) \<Rightarrow> nat \<Rightarrow> nat \<Rightarrow> nat \<Rightarrow> nat \<Rightarrow> (nat \<Rightarrow> size_t) \<times> nat" where
  "SplitRun_group bits run_ind need_pages i j =
     (if i + j < need_pages \<and> bits (run_ind + i + j) AND CHUNK_MAP_MADVISED_OR_DECOMMITTED \<noteq> 0
      then SplitRun_group
             (bits(run_ind + i + j := bits (run_ind + i + j) AND NOT CHUNK_MAP_MADVISED_OR_DECOMMITTED))
             run_ind need_pages i (Suc j)
      else (bits, j))"
  by pat_completeness auto

termination SplitRun_group
  by (relation "measure (\<lambda>(bits, run_ind, need_pages, i, j). need_pages - (i + j))") auto

function SplitRun_pages ::
  "bool \<Rightarrow> ptr \<Rightarrow> ptr \<Rightarrow> nat \<Rightarrow> nat \<Rightarrow> bool \<Rightarrow> bool \<Rightarrow> nat \<Rightarrow> heap \<times> arena_chunk
    \<Rightarrow> heap \<times> arena_chunk" where
  "SplitRun_pages dc chunk aRun run_ind need_pages aLarge aZero i (s, ch) =
     (if i < need_pages then
        (let bits0 = map_bits ch;
             grp = (bits0 (run_ind + i) AND CHUNK_MAP_MADVISED_OR_DECOMMITTED \<noteq> 0);
             (bits1, j) = (if grp then SplitRun_group bits0 run_ind need_pages i 0 else (bits0, 0));
             s1 = (if grp
                   then (if dc then pages_commit s (page_addr chunk (run_ind + i))
                                      (push_bit pagesize_2pow (of_nat j))
                         else s)
                          \<lparr>mStats_committed := mStats_committed s + of_nat j\<rparr>
                   else s);
             s2 = (if (\<not> (dc \<and> grp)) \<and> aZero \<and> bits1 (run_ind + i) AND CHUNK_MAP_ZEROED = 0
                   then memset s1 (page_addr chunk (run_ind + i)) 0 pagesize else s1);
             dirty = (bits1 (run_ind + i) AND CHUNK_MAP_DIRTY \<noteq> 0);
             s3 = (if dirty then s2\<lparr>mNumDirty := mNumDirty s2 - 1\<rparr> else s2);
             nd = (if dirty then ndirty ch - 1 else ndirty ch);
             bits2 = bits1(run_ind + i :=
                       (if aLarge then CHUNK_MAP_LARGE OR CHUNK_MAP_ALLOCATED
                        else aRun OR CHUNK_MAP_ALLOCATED))
         in SplitRun_pages dc chunk aRun run_ind need_pages aLarge aZero (Suc i)
              (s3, ch\<lparr>ndirty := nd, map_bits := bits2\<rparr>))
      else (s, ch))"
  by pat_completeness auto

termination SplitRun_pages
  by (relation "measure (\<lambda>(dc, chunk, aRun, run_ind, need_pages, aLarge, aZero, i, sc). need_pages - i)")
    auto

definition SplitRun :: "bool \<Rightarrow> heap \<Rightarrow> ptr \<Rightarrow> size_t \<Rightarrow> bool \<Rightarrow> bool \<Rightarrow> abort + heap" where
  "SplitRun dc s aRun aSize aLarge aZero =
     (let chunk = CHUNK_ADDR2BASE aRun
      in case chunk_get s chunk of
           None \<Rightarrow> Inl UndefinedBehaviour
         | Some ch \<Rightarrow>
             (let old_ndirty = ndirty ch;
                  run_ind = unat (ucast (drop_bit pagesize_2pow (aRun - chunk)) :: 32 word);
                  bits = map_bits ch
              in defined (run_ind < unat chunk_npages)
                (let total_pages = npages_of (bits run_ind AND NOT pagesize_mask);
                     need_pages = npages_of aSize
                 in defined (need_pages \<le> total_pages \<and> run_ind + total_pages \<le> unat chunk_npages)
                   (let rem_pages = total_pages - need_pages
                    in case tree_Remove (mRunsAvail s) (mapelm_addr chunk run_ind) of
                         Inl e \<Rightarrow> Inl e
                       | Inr avail1 \<Rightarrow>
                           (case (if rem_pages > 0
                                  then (case tree_Insert avail1 (mapelm_addr chunk (run_ind + need_pages)) of
                                          Inl e \<Rightarrow> Inl e
                                        | Inr avail2 \<Rightarrow>
                                            Inr (set_size
                                                  (set_size bits (run_ind + need_pages)
                                                     (push_bit pagesize_2pow (of_nat rem_pages)))
                                                  (run_ind + total_pages - 1)
                                                  (push_bit pagesize_2pow (of_nat rem_pages)),
                                                 avail2))
                                  else Inr (bits, avail1)) of
                              Inl e \<Rightarrow> Inl e
                            | Inr (bits1, avail2) \<Rightarrow>
                                (case SplitRun_pages dc chunk aRun run_ind need_pages aLarge aZero 0
                                        (s\<lparr>mRunsAvail := avail2\<rparr>, ch\<lparr>map_bits := bits1\<rparr>) of
                                   (s1, ch1) \<Rightarrow>
                                     (let ch2 = (if aLarge
                                                 then ch1\<lparr>map_bits := (map_bits ch1)
                                                        (run_ind := map_bits ch1 run_ind OR aSize)\<rparr>
                                                 else ch1);
                                          s2 = s1\<lparr>chunk_hdr := (chunk_hdr s1)(chunk \<mapsto> ch2)\<rparr>
                                      in if ndirty ch2 = 0 \<and> old_ndirty > 0
                                         then (case tree_Remove (mChunksDirty s2) chunk of
                                                 Inl e \<Rightarrow> Inl e
                                               | Inr d \<Rightarrow> Inr (s2\<lparr>mChunksDirty := d\<rparr>))
                                         else Inr s2)))))))"

section \<open>Arena: chunks and runs\<close>

definition InitChunk :: "bool \<Rightarrow> heap \<Rightarrow> ptr \<Rightarrow> bool \<Rightarrow> abort + heap" where
  "InitChunk dc s aChunk aZeroed =
     (let flags = (if aZeroed then CHUNK_MAP_DECOMMITTED OR CHUNK_MAP_ZEROED
                   else CHUNK_MAP_MADVISED);
          first_ind = hdr_npages;
          last_ind = unat chunk_npages - 1;
          ends = arena_maxclass OR flags;
          bits = (\<lambda>i. if i < first_ind then 0
                      else if i = first_ind \<or> i = last_ind then ends
                      else flags);
          s1 = s\<lparr>mStats_mapped := mStats_mapped s + chunksize,
                 chunk_hdr := (chunk_hdr s)(aChunk \<mapsto> \<lparr>ndirty = 0, map_bits = bits\<rparr>)\<rparr>;
          s2 = (if dc then pages_decommit s1 (page_addr aChunk hdr_npages) arena_maxclass else s1);
          s3 = s2\<lparr>mStats_committed := mStats_committed s2 + arena_chunk_header_npages\<rparr>
      in case tree_Insert (mRunsAvail s3) (mapelm_addr aChunk hdr_npages) of
           Inl e \<Rightarrow> Inl e
         | Inr avail \<Rightarrow> Inr (s3\<lparr>mRunsAvail := avail\<rparr>))"

definition DeallocChunk :: "bool \<Rightarrow> heap \<Rightarrow> ptr \<Rightarrow> abort + heap" where
  "DeallocChunk dc s aChunk =
     (case (if mSpare s \<noteq> nullptr then
              (case chunk_get s (mSpare s) of
                 None \<Rightarrow> Inl UndefinedBehaviour
               | Some sp \<Rightarrow>
                   (case (if ndirty sp > 0
                          then (case tree_Remove (mChunksDirty s) (mSpare s) of
                                  Inl e \<Rightarrow> Inl e
                                | Inr d \<Rightarrow>
                                    Inr (s\<lparr>mChunksDirty := d,
                                            mNumDirty := mNumDirty s - ndirty sp,
                                            mStats_committed := mStats_committed s - ndirty sp\<rparr>))
                          else Inr s) of
                      Inl e \<Rightarrow> Inl e
                    | Inr s1 \<Rightarrow>
                        (let s2 = chunk_dealloc dc s1 (mSpare s1) chunksize ARENA_CHUNK;
                             s3 = s2\<lparr>chunk_hdr := (chunk_hdr s2)(mSpare s1 := None),
                                    mStats_mapped := mStats_mapped s2 - chunksize,
                                    mStats_committed := mStats_committed s2 - arena_chunk_header_npages\<rparr>
                         in Inr s3)))
            else Inr s) of
        Inl e \<Rightarrow> Inl e
      | Inr s4 \<Rightarrow>
          (case tree_Remove (mRunsAvail s4) (mapelm_addr aChunk hdr_npages) of
             Inl e \<Rightarrow> Inl e
           | Inr avail \<Rightarrow> Inr (s4\<lparr>mRunsAvail := avail, mSpare := aChunk\<rparr>)))"

text \<open>
  ArenaAvailTreeTrait orders the available runs by size, then by the address of the map
  element; the search key carries the requested size and compares below every element of
  equal size.
\<close>

definition avail_size :: "heap \<Rightarrow> ptr \<Rightarrow> size_t" where
  "avail_size s m = (case mapelm_bits s m of None \<Rightarrow> 0 | Some b \<Rightarrow> b AND NOT pagesize_mask)"

definition avail_le :: "heap \<Rightarrow> ptr \<Rightarrow> ptr \<Rightarrow> bool" where
  "avail_le s a b =
     (avail_size s a < avail_size s b \<or> (avail_size s a = avail_size s b \<and> a \<le> b))"

definition avail_SearchOrNext :: "heap \<Rightarrow> size_t \<Rightarrow> ptr" where
  "avail_SearchOrNext s sz =
     (case min_by (avail_le s) (filter (\<lambda>m. sz \<le> avail_size s m) (mRunsAvail s)) of
        None \<Rightarrow> nullptr | Some m \<Rightarrow> m)"

definition AllocRun :: "bool \<Rightarrow> heap \<Rightarrow> size_t \<Rightarrow> bool \<Rightarrow> bool \<Rightarrow> abort + (ptr \<times> heap)" where
  "AllocRun dc s aSize aLarge aZero =
     defined (list_all (\<lambda>m. mapelm_bits s m \<noteq> None) (mRunsAvail s))
       (let mapelm = avail_SearchOrNext s (aSize AND NOT pagesize_mask)
        in if mapelm \<noteq> nullptr then
             (let chunk = CHUNK_ADDR2BASE mapelm;
                  run = page_addr chunk (mapelm_pageind mapelm)
              in case SplitRun dc s run aSize aLarge aZero of
                   Inl e \<Rightarrow> Inl e | Inr s1 \<Rightarrow> Inr (run, s1))
           else if mSpare s \<noteq> nullptr then
             (let chunk = mSpare s;
                  run = page_addr chunk hdr_npages
              in case tree_Insert (mRunsAvail s) (mapelm_addr chunk hdr_npages) of
                   Inl e \<Rightarrow> Inl e
                 | Inr avail \<Rightarrow>
                     (case SplitRun dc (s\<lparr>mSpare := nullptr, mRunsAvail := avail\<rparr>) run aSize aLarge aZero of
                        Inl e \<Rightarrow> Inl e | Inr s1 \<Rightarrow> Inr (run, s1)))
           else
             (case chunk_alloc dc s chunksize chunksize False of
                (chunk, zeroed, s1) \<Rightarrow>
                  if chunk = nullptr then Inr (nullptr, s1)
                  else
                    (case InitChunk dc s1 chunk zeroed of
                       Inl e \<Rightarrow> Inl e
                     | Inr s2 \<Rightarrow>
                         (let run = page_addr chunk hdr_npages
                          in case SplitRun dc s2 run aSize aLarge aZero of
                               Inl e \<Rightarrow> Inl e | Inr s3 \<Rightarrow> Inr (run, s3)))))"

section \<open>Arena: purging dirty pages\<close>

text \<open>
  The scan of Purge for adjacent dirty pages below page i: it returns the map, the index
  of the lowest page of the group and the number of pages in it.
\<close>

fun Purge_adjacent :: "size_t \<Rightarrow> (nat \<Rightarrow> size_t) \<Rightarrow> nat \<Rightarrow> nat \<Rightarrow> (nat \<Rightarrow> size_t) \<times> nat \<times> nat" where
  "Purge_adjacent free_operation bits i npages =
     (if i > hdr_npages \<and> bits (i - 1) AND CHUNK_MAP_DIRTY \<noteq> 0
      then Purge_adjacent free_operation
             (bits(i - 1 := bits (i - 1) XOR (free_operation OR CHUNK_MAP_DIRTY)))
             (i - 1) (Suc npages)
      else (bits, i, npages))"

declare Purge_adjacent.simps [simp del]

lemma Purge_adjacent_le: "Purge_adjacent f bits i n = (bits1, i1, n1) \<Longrightarrow> i1 \<le> i"
proof (induction f bits i n rule: Purge_adjacent.induct)
  case (1 f bits i n)
  show ?case
  proof (cases "i > hdr_npages \<and> bits (i - 1) AND CHUNK_MAP_DIRTY \<noteq> 0")
    case True
    with "1.prems" have "Purge_adjacent f
             (bits(i - 1 := bits (i - 1) XOR (f OR CHUNK_MAP_DIRTY))) (i - 1) (Suc n)
           = (bits1, i1, n1)"
      by (subst (asm) Purge_adjacent.simps) simp
    with "1.IH" True have "i1 \<le> i - 1" by blast
    then show ?thesis by simp
  next
    case False
    with "1.prems" show ?thesis by (subst (asm) Purge_adjacent.simps) auto
  qed
qed

text \<open>
  One dirty group of Purge: the pages from i downwards that are dirty are flipped to the
  free operation's mark and released; the result is the lowest page of the group, the
  state and the chunk header.
\<close>

definition Purge_group :: "bool \<Rightarrow> ptr \<Rightarrow> nat \<Rightarrow> heap \<times> arena_chunk \<Rightarrow> nat \<times> heap \<times> arena_chunk" where
  "Purge_group dc chunk i sc =
     (case sc of (s, ch) \<Rightarrow>
        (let free_operation = (if dc then CHUNK_MAP_DECOMMITTED else CHUNK_MAP_MADVISED);
             bits0 = (map_bits ch)(i := map_bits ch i XOR (free_operation OR CHUNK_MAP_DIRTY))
         in case Purge_adjacent free_operation bits0 i 1 of
              (bits1, i1, npages) \<Rightarrow>
                (let ch1 = ch\<lparr>ndirty := ndirty ch - of_nat npages, map_bits := bits1\<rparr>;
                     s1 = s\<lparr>mNumDirty := mNumDirty s - of_nat npages\<rparr>;
                     s2 = (if dc then pages_decommit s1 (page_addr chunk i1)
                                         (push_bit pagesize_2pow (of_nat npages))
                           else s1);
                     s3 = s2\<lparr>mStats_committed := mStats_committed s2 - of_nat npages\<rparr>;
                     s4 = (if dc then s3
                           else madvise_free s3 (page_addr chunk i1)
                                  (push_bit pagesize_2pow (of_nat npages)))
                 in (i1, s4, ch1))))"

lemma Purge_group_le: "Purge_group dc chunk i sc = (i1, s1, ch1) \<Longrightarrow> i1 \<le> i"
  by (auto simp: Purge_group_def Let_def split: prod.splits dest: Purge_adjacent_le)

lemma Purge_group_dirty_tree:
  "Purge_group dc chunk i (s, ch) = (i1, s1, ch1) \<Longrightarrow> mChunksDirty s1 = mChunksDirty s"
  by (auto simp: Purge_group_def Let_def pages_decommit_def madvise_free_def split: prod.splits)

function Purge_chunk ::
  "bool \<Rightarrow> ptr \<Rightarrow> size_t \<Rightarrow> nat \<Rightarrow> heap \<times> arena_chunk \<Rightarrow> abort + (heap \<times> arena_chunk)" where
  "Purge_chunk dc chunk dirty_max i sc =
     (if ndirty (snd sc) > 0 then
        (if i < hdr_npages then Inl DiagnosticAssert
         else if unat chunk_npages \<le> i then Inl UndefinedBehaviour
         else if map_bits (snd sc) i AND CHUNK_MAP_DIRTY \<noteq> 0 then
           (case Purge_group dc chunk i sc of
              (i1, s4, ch1) \<Rightarrow>
                if mNumDirty s4 \<le> drop_bit 1 dirty_max then Inr (s4, ch1)
                else if i1 = 0 then Inl UndefinedBehaviour
                else Purge_chunk dc chunk dirty_max (i1 - 1) (s4, ch1))
         else if i = 0 then Inl UndefinedBehaviour
         else Purge_chunk dc chunk dirty_max (i - 1) sc)
      else Inr sc)"
  by pat_completeness auto

termination Purge_chunk
  by (relation "measure (\<lambda>(dc, chunk, dirty_max, i, sc). i)")
    (auto dest!: Purge_group_le [OF sym])

declare Purge_chunk.simps [simp del]

lemma Purge_chunk_dirty_tree:
  "Purge_chunk dc chunk dirty_max i sc = Inr sc1 \<Longrightarrow> mChunksDirty (fst sc1) = mChunksDirty (fst sc)"
proof (induction dc chunk dirty_max i sc rule: Purge_chunk.induct)
  case (1 dc chunk dirty_max i sc)
  show ?case
  proof (cases "ndirty (snd sc) > 0 \<and> \<not> i < hdr_npages \<and> \<not> unat chunk_npages \<le> i")
    case False
    with "1.prems" show ?thesis
      by (subst (asm) Purge_chunk.simps) (auto split: if_splits)
  next
    case guard: True
    show ?thesis
    proof (cases "map_bits (snd sc) i AND CHUNK_MAP_DIRTY \<noteq> 0")
      case dirty: True
      obtain i1 s4 ch1 where g: "Purge_group dc chunk i sc = (i1, s4, ch1)"
        by (cases "Purge_group dc chunk i sc") auto
      have tree: "mChunksDirty s4 = mChunksDirty (fst sc)"
        using g Purge_group_dirty_tree [of dc chunk i "fst sc" "snd sc" i1 s4 ch1] by simp
      show ?thesis
      proof (cases "mNumDirty s4 \<le> drop_bit 1 dirty_max")
        case True
        with "1.prems" guard dirty g tree show ?thesis
          by (subst (asm) Purge_chunk.simps) auto
      next
        case False
        with "1.prems" guard dirty g have rec: "i1 \<noteq> 0"
          "Purge_chunk dc chunk dirty_max (i1 - 1) (s4, ch1) = Inr sc1"
          by (subst (asm) Purge_chunk.simps, auto split: if_splits)+
        have "mChunksDirty (fst sc1) = mChunksDirty (fst (s4, ch1))"
          using "1.IH"(1) [OF _ _ _ dirty g [symmetric] refl False rec(1) rec(2)] guard by auto
        with tree show ?thesis by simp
      qed
    next
      case clean: False
      with "1.prems" guard have rec: "i \<noteq> 0"
        "Purge_chunk dc chunk dirty_max (i - 1) sc = Inr sc1"
        by (subst (asm) Purge_chunk.simps, auto split: if_splits)+
      show ?thesis
        using "1.IH"(2) [OF _ _ _ clean rec(1) rec(2)] guard by auto
    qed
  qed
qed

lemma Purge_chunk_stops:
  "Purge_chunk dc chunk dirty_max i sc = Inr sc1
    \<Longrightarrow> ndirty (snd sc1) = 0 \<or> mNumDirty (fst sc1) \<le> drop_bit 1 dirty_max"
proof (induction dc chunk dirty_max i sc rule: Purge_chunk.induct)
  case (1 dc chunk dirty_max i sc)
  show ?case
  proof (cases "ndirty (snd sc) > 0")
    case False
    then have "ndirty (snd sc) = 0" by (simp add: word_gt_0)
    with "1.prems" show ?thesis
      by (subst (asm) Purge_chunk.simps) auto
  next
    case pos: True
    show ?thesis
    proof (cases "\<not> i < hdr_npages \<and> \<not> unat chunk_npages \<le> i")
      case False
      with "1.prems" pos show ?thesis
        by (subst (asm) Purge_chunk.simps) (auto split: if_splits)
    next
      case guard: True
      show ?thesis
      proof (cases "map_bits (snd sc) i AND CHUNK_MAP_DIRTY \<noteq> 0")
        case dirty: True
        obtain i1 s4 ch1 where g: "Purge_group dc chunk i sc = (i1, s4, ch1)"
          by (cases "Purge_group dc chunk i sc") auto
        show ?thesis
        proof (cases "mNumDirty s4 \<le> drop_bit 1 dirty_max")
          case True
          with "1.prems" pos guard dirty g show ?thesis
            by (subst (asm) Purge_chunk.simps) auto
        next
          case False
          with "1.prems" pos guard dirty g have rec: "i1 \<noteq> 0"
            "Purge_chunk dc chunk dirty_max (i1 - 1) (s4, ch1) = Inr sc1"
            by (subst (asm) Purge_chunk.simps, auto split: if_splits)+
          show ?thesis
            using "1.IH"(1) [OF pos _ _ dirty g [symmetric] refl False rec(1) rec(2)] guard
            by auto
        qed
      next
        case clean: False
        with "1.prems" pos guard have rec: "i \<noteq> 0"
          "Purge_chunk dc chunk dirty_max (i - 1) sc = Inr sc1"
          by (subst (asm) Purge_chunk.simps, auto split: if_splits)+
        show ?thesis
          using "1.IH"(2) [OF pos _ _ clean rec(1) rec(2)] guard by auto
      qed
    qed
  qed
qed

text \<open>One iteration of the while loop of Purge, on the highest dirty chunk.\<close>

definition Purge_step :: "bool \<Rightarrow> size_t \<Rightarrow> heap \<Rightarrow> abort + heap" where
  "Purge_step dc dirty_max s =
     (let chunk = tree_Last (mChunksDirty s)
      in diag_assert (chunk \<noteq> nullptr)
           (case chunk_get s chunk of
              None \<Rightarrow> Inl UndefinedBehaviour
            | Some ch \<Rightarrow>
                (case Purge_chunk dc chunk dirty_max (unat chunk_npages - 1) (s, ch) of
                   Inl e \<Rightarrow> Inl e
                 | Inr (s1, ch1) \<Rightarrow>
                     (let s2 = s1\<lparr>chunk_hdr := (chunk_hdr s1)(chunk \<mapsto> ch1)\<rparr>
                      in if ndirty ch1 = 0
                         then (case tree_Remove (mChunksDirty s2) chunk of
                                 Inl e \<Rightarrow> Inl e
                               | Inr d \<Rightarrow> Inr (s2\<lparr>mChunksDirty := d\<rparr>))
                         else Inr s2))))"

lemma Purge_step_measure:
  assumes "Purge_step dc dirty_max s = Inr s1"
  shows "mNumDirty s1 \<le> drop_bit 1 dirty_max \<or> length (mChunksDirty s1) < length (mChunksDirty s)"
proof -
  let ?chunk = "tree_Last (mChunksDirty s)"
  from assms obtain ch where ch: "chunk_get s ?chunk = Some ch"
    by (auto simp: Purge_step_def Let_def diag_assert_def split: if_splits option.splits)
  from assms ch obtain s0 ch1 where
    pc: "Purge_chunk dc ?chunk dirty_max (unat chunk_npages - 1) (s, ch) = Inr (s0, ch1)"
    by (auto simp: Purge_step_def Let_def diag_assert_def split: if_splits sum.splits)
  have tree: "mChunksDirty s0 = mChunksDirty s"
    using Purge_chunk_dirty_tree [OF pc] by simp
  have stop: "ndirty ch1 = 0 \<or> mNumDirty s0 \<le> drop_bit 1 dirty_max"
    using Purge_chunk_stops [OF pc] by simp
  show ?thesis
  proof (cases "ndirty ch1 = 0")
    case True
    with assms ch pc tree have "?chunk \<in> set (mChunksDirty s)"
      "mChunksDirty s1 = remove1 ?chunk (mChunksDirty s)"
      by (auto simp: Purge_step_def Let_def diag_assert_def tree_Remove_def
          split: if_splits sum.splits)
    then show ?thesis by (simp add: length_remove1) (cases "mChunksDirty s"; simp)
  next
    case False
    with assms ch pc have "mNumDirty s1 = mNumDirty s0"
      by (auto simp: Purge_step_def Let_def diag_assert_def split: if_splits sum.splits)
    with stop False show ?thesis by simp
  qed
qed

function Purge_loop :: "bool \<Rightarrow> size_t \<Rightarrow> heap \<Rightarrow> abort + heap" where
  "Purge_loop dc dirty_max s =
     (if mNumDirty s > drop_bit 1 dirty_max then
        (case Purge_step dc dirty_max s of
           Inl e \<Rightarrow> Inl e
         | Inr s1 \<Rightarrow> Purge_loop dc dirty_max s1)
      else Inr s)"
  by pat_completeness auto

termination Purge_loop
proof (relation "measure (\<lambda>(dc, dirty_max, s).
          if mNumDirty s > drop_bit 1 dirty_max then Suc (length (mChunksDirty s)) else 0)",
       goal_cases)
  case 1
  show ?case by simp
next
  case (2 dc dirty_max s s1)
  then show ?case
    using Purge_step_measure [of dc dirty_max s s1] by (auto simp: not_less)
qed

declare Purge_loop.simps [simp del]

definition Purge :: "bool \<Rightarrow> heap \<Rightarrow> bool \<Rightarrow> abort + heap" where
  "Purge dc s aAll =
     (let dirty_max = (if aAll then 1 else mMaxDirty s)
      in diag_assert (aAll \<or> mNumDirty s > mMaxDirty s) (Purge_loop dc dirty_max s))"

section \<open>Arena: freeing a run\<close>

definition mark_dirty :: "(nat \<Rightarrow> size_t) \<Rightarrow> nat \<Rightarrow> nat \<Rightarrow> (nat \<Rightarrow> size_t)" where
  "mark_dirty bits run_ind run_pages =
     fold (\<lambda>i b. b(run_ind + i := CHUNK_MAP_DIRTY)) [0..<run_pages] bits"

definition mark_unallocated :: "(nat \<Rightarrow> size_t) \<Rightarrow> nat \<Rightarrow> nat \<Rightarrow> (nat \<Rightarrow> size_t)" where
  "mark_unallocated bits run_ind run_pages =
     fold (\<lambda>i b. b(run_ind + i := b (run_ind + i) AND NOT (CHUNK_MAP_LARGE OR CHUNK_MAP_ALLOCATED)))
       [0..<run_pages] bits"

text \<open>
  The forward and backward coalescing of DallocRun on the page map and the tree of
  available runs: the result is the new first page, the size, the map and the tree.
\<close>

definition DallocRun_forward ::
  "ptr \<Rightarrow> nat \<Rightarrow> size_t \<Rightarrow> (nat \<Rightarrow> size_t) \<Rightarrow> ptr list \<Rightarrow> abort + (size_t \<times> (nat \<Rightarrow> size_t) \<times> ptr list)" where
  "DallocRun_forward chunk run_ind sz bits avail =
     (let run_pages = npages_of sz
      in if run_ind + run_pages < unat chunk_npages
            \<and> bits (run_ind + run_pages) AND CHUNK_MAP_ALLOCATED = 0
         then
           (let nrun_size = bits (run_ind + run_pages) AND NOT pagesize_mask
            in case tree_Remove avail (mapelm_addr chunk (run_ind + run_pages)) of
                 Inl e \<Rightarrow> Inl e
               | Inr avail1 \<Rightarrow>
                   (let sz1 = sz + nrun_size;
                        run_pages1 = npages_of sz1
                    in defined (0 < run_ind + run_pages1 \<and> run_ind + run_pages1 \<le> unat chunk_npages)
                         (diag_assert
                            (bits (run_ind + run_pages1 - 1) AND NOT pagesize_mask = nrun_size)
                            (Inr (sz1,
                                  set_size (set_size bits run_ind sz1) (run_ind + run_pages1 - 1) sz1,
                                  avail1)))))
         else Inr (sz, bits, avail))"

definition DallocRun_backward ::
  "ptr \<Rightarrow> nat \<Rightarrow> size_t \<Rightarrow> (nat \<Rightarrow> size_t) \<Rightarrow> ptr list
    \<Rightarrow> abort + (nat \<times> size_t \<times> (nat \<Rightarrow> size_t) \<times> ptr list)" where
  "DallocRun_backward chunk run_ind sz bits avail =
     (if run_ind > hdr_npages \<and> bits (run_ind - 1) AND CHUNK_MAP_ALLOCATED = 0
      then
        (let prun_size = bits (run_ind - 1) AND NOT pagesize_mask
         in defined (npages_of prun_size \<le> run_ind)
              (let run_ind1 = run_ind - npages_of prun_size
               in case tree_Remove avail (mapelm_addr chunk run_ind1) of
                    Inl e \<Rightarrow> Inl e
                  | Inr avail1 \<Rightarrow>
                      (let sz1 = sz + prun_size;
                           run_pages1 = npages_of sz1
                       in defined (0 < run_ind1 + run_pages1 \<and> run_ind1 + run_pages1 \<le> unat chunk_npages)
                            (diag_assert (bits run_ind1 AND NOT pagesize_mask = prun_size)
                               (Inr (run_ind1, sz1,
                                     set_size (set_size bits run_ind1 sz1)
                                       (run_ind1 + run_pages1 - 1) sz1,
                                     avail1))))))
      else Inr (run_ind, sz, bits, avail))"

text \<open>
  DallocRun up to and including the release of a chunk that became empty; the
  enforcement of mMaxDirty that ends the function follows in DallocRun.
\<close>

definition DallocRun_coalesce :: "bool \<Rightarrow> heap \<Rightarrow> ptr \<Rightarrow> bool \<Rightarrow> abort + heap" where
  "DallocRun_coalesce dc s aRun aDirty =
     (let chunk = CHUNK_ADDR2BASE aRun
      in case chunk_get s chunk of
           None \<Rightarrow> Inl UndefinedBehaviour
         | Some ch \<Rightarrow>
             (let run_ind = unat (drop_bit pagesize_2pow (aRun - chunk));
                  bits = map_bits ch
              in diag_assert (run_ind \<ge> hdr_npages \<and> run_ind < unat chunk_npages)
                (defined (run_ind < unat chunk_npages)
                  (case (if bits run_ind AND CHUNK_MAP_LARGE \<noteq> 0
                         then Inr (bits run_ind AND NOT pagesize_mask)
                         else (case run_hdr s aRun of
                                 None \<Rightarrow> Inl UndefinedBehaviour
                               | Some r \<Rightarrow>
                                   if bin r < length (mBins s) then Inr (run_size (mBins s ! bin r))
                                   else Inl UndefinedBehaviour)) of
                     Inl e \<Rightarrow> Inl e
                   | Inr sz \<Rightarrow>
                       (let run_pages = npages_of sz
                        in defined (run_ind + run_pages \<le> unat chunk_npages)
                          (case (if aDirty
                                 then diag_assert
                                        (list_all (\<lambda>i. bits (run_ind + i) AND CHUNK_MAP_DIRTY = 0)
                                           [0..<run_pages])
                                        (case (if ndirty ch = 0
                                               then tree_Insert (mChunksDirty s) chunk
                                               else Inr (mChunksDirty s)) of
                                           Inl e \<Rightarrow> Inl e
                                         | Inr d \<Rightarrow>
                                             Inr (mark_dirty bits run_ind run_pages,
                                                  ndirty ch + of_nat run_pages,
                                                  s\<lparr>mChunksDirty := d,
                                                     mNumDirty := mNumDirty s + of_nat run_pages\<rparr>))
                                 else Inr (mark_unallocated bits run_ind run_pages, ndirty ch, s)) of
                             Inl e \<Rightarrow> Inl e
                           | Inr (bits1, nd, s1) \<Rightarrow>
                               (let bits2 = set_size (set_size bits1 run_ind sz)
                                              (run_ind + run_pages - 1) sz
                                in case DallocRun_forward chunk run_ind sz bits2 (mRunsAvail s1) of
                                     Inl e \<Rightarrow> Inl e
                                   | Inr (sz1, bits3, avail1) \<Rightarrow>
                                       (case DallocRun_backward chunk run_ind sz1 bits3 avail1 of
                                          Inl e \<Rightarrow> Inl e
                                        | Inr (run_ind1, sz2, bits4, avail2) \<Rightarrow>
                                            (case tree_Insert avail2 (mapelm_addr chunk run_ind1) of
                                               Inl e \<Rightarrow> Inl e
                                             | Inr avail3 \<Rightarrow>
                                                 (let s2 = s1\<lparr>mRunsAvail := avail3,
                                                              chunk_hdr := (chunk_hdr s1)
                                                                (chunk \<mapsto> ch\<lparr>ndirty := nd, map_bits := bits4\<rparr>)\<rparr>
                                                  in if bits4 hdr_npages
                                                          AND (NOT pagesize_mask OR CHUNK_MAP_ALLOCATED)
                                                        = arena_maxclass
                                                     then DeallocChunk dc s2 chunk
                                                     else Inr s2))))))))))"

definition DallocRun :: "bool \<Rightarrow> heap \<Rightarrow> ptr \<Rightarrow> bool \<Rightarrow> abort + heap" where
  "DallocRun dc s aRun aDirty =
     (case DallocRun_coalesce dc s aRun aDirty of
        Inl e \<Rightarrow> Inl e
      | Inr s3 \<Rightarrow> if mNumDirty s3 > mMaxDirty s3 then Purge dc s3 False else Inr s3)"

definition TrimRunHead :: "bool \<Rightarrow> heap \<Rightarrow> ptr \<Rightarrow> ptr \<Rightarrow> size_t \<Rightarrow> size_t \<Rightarrow> abort + heap" where
  "TrimRunHead dc s aChunk aRun aOldSize aNewSize =
     (case chunk_get s aChunk of
        None \<Rightarrow> Inl UndefinedBehaviour
      | Some ch \<Rightarrow>
          (let pageind = unat (drop_bit pagesize_2pow (aRun - aChunk));
               head_npages = npages_of (aOldSize - aNewSize)
           in defined (pageind + head_npages < unat chunk_npages)
                (let bits = (map_bits ch)
                       (pageind := (aOldSize - aNewSize) OR CHUNK_MAP_LARGE OR CHUNK_MAP_ALLOCATED,
                        pageind + head_npages := aNewSize OR CHUNK_MAP_LARGE OR CHUNK_MAP_ALLOCATED)
                 in DallocRun dc (s\<lparr>chunk_hdr := (chunk_hdr s)(aChunk \<mapsto> ch\<lparr>map_bits := bits\<rparr>)\<rparr>)
                      aRun False)))"

definition TrimRunTail ::
  "bool \<Rightarrow> heap \<Rightarrow> ptr \<Rightarrow> ptr \<Rightarrow> size_t \<Rightarrow> size_t \<Rightarrow> bool \<Rightarrow> abort + heap" where
  "TrimRunTail dc s aChunk aRun aOldSize aNewSize aDirty =
     (case chunk_get s aChunk of
        None \<Rightarrow> Inl UndefinedBehaviour
      | Some ch \<Rightarrow>
          (let pageind = unat (drop_bit pagesize_2pow (aRun - aChunk));
               npages = npages_of aNewSize
           in defined (pageind + npages < unat chunk_npages)
                (let bits = (map_bits ch)
                       (pageind := aNewSize OR CHUNK_MAP_LARGE OR CHUNK_MAP_ALLOCATED,
                        pageind + npages := (aOldSize - aNewSize) OR CHUNK_MAP_LARGE OR CHUNK_MAP_ALLOCATED)
                 in DallocRun dc (s\<lparr>chunk_hdr := (chunk_hdr s)(aChunk \<mapsto> ch\<lparr>map_bits := bits\<rparr>)\<rparr>)
                      (aRun + aNewSize) aDirty)))"

section \<open>Arena: regions of a small run\<close>

definition UINT_MAX :: "32 word" where
  "UINT_MAX = 0xffffffff"

definition region_addr :: "ptr \<Rightarrow> arena_bin \<Rightarrow> 32 word \<Rightarrow> ptr" where
  "region_addr run b regind = run + ucast (reg0_offset b) + reg_size b * ucast regind"

definition arena_run_reg_alloc :: "ptr \<Rightarrow> arena_run \<Rightarrow> arena_bin \<Rightarrow> abort + (ptr \<times> arena_run)" where
  "arena_run_reg_alloc run r b =
     (let i = unat (regs_minelm r)
      in defined (i < length (regs_mask r) \<and> unat (regs_mask_nelms b) \<le> length (regs_mask r))
           (if regs_mask r ! i \<noteq> 0 then
              (let mask = regs_mask r ! i;
                   bit = ffs mask - 1;
                   regind = push_bit (SIZEOF_INT_2POW + 3) (regs_minelm r) + of_nat bit
               in Inr (region_addr run b regind,
                       r\<lparr>regs_mask := (regs_mask r)[i := mask XOR push_bit bit 1]\<rparr>))
            else
              (case find (\<lambda>k. regs_mask r ! k \<noteq> 0) [Suc i..<unat (regs_mask_nelms b)] of
                 None \<Rightarrow> Inl DiagnosticAssert
               | Some k \<Rightarrow>
                   (let mask = regs_mask r ! k;
                        bit = ffs mask - 1;
                        regind = push_bit (SIZEOF_INT_2POW + 3) (of_nat k) + of_nat bit
                    in Inr (region_addr run b regind,
                            r\<lparr>regs_mask := (regs_mask r)[k := mask XOR push_bit bit 1],
                              regs_minelm := of_nat k\<rparr>)))))"

definition SIZE_INV_SHIFT :: nat where
  "SIZE_INV_SHIFT = 21"

definition SIZE_INV :: "nat \<Rightarrow> 32 word" where
  "SIZE_INV s = push_bit SIZE_INV_SHIFT 1 div push_bit QUANTUM_2POW_MIN (of_nat s) + 1"

definition size_invs :: "32 word list" where
  "size_invs = map SIZE_INV [3..<32]"

definition log2_table :: "nat list" where
  "log2_table =
    [0, 1, 0, 2, 0, 0, 0, 3, 0, 0, 0, 0, 0, 0, 0, 4,
     0, 0, 0, 0, 0, 0, 0, 0, 0, 0, 0, 0, 0, 0, 0, 5,
     0, 0, 0, 0, 0, 0, 0, 0, 0, 0, 0, 0, 0, 0, 0, 0,
     0, 0, 0, 0, 0, 0, 0, 0, 0, 0, 0, 0, 0, 0, 0, 6,
     0, 0, 0, 0, 0, 0, 0, 0, 0, 0, 0, 0, 0, 0, 0, 0,
     0, 0, 0, 0, 0, 0, 0, 0, 0, 0, 0, 0, 0, 0, 0, 0,
     0, 0, 0, 0, 0, 0, 0, 0, 0, 0, 0, 0, 0, 0, 0, 0,
     0, 0, 0, 0, 0, 0, 0, 0, 0, 0, 0, 0, 0, 0, 0, 7]"

text \<open>The division-free computation of the region index in arena_run_reg_dalloc.\<close>

definition reg_index :: "32 word \<Rightarrow> size_t \<Rightarrow> abort + 32 word" where
  "reg_index diff sz =
     (if sz AND (sz - 1) = 0 then
        (if sz \<le> 128 then
           defined (sz \<noteq> 0) (Inr (drop_bit (log2_table ! unat (sz - 1)) diff))
         else if sz \<le> 32768 then
           Inr (drop_bit (8 + log2_table ! unat (drop_bit 8 sz - 1)) diff)
         else Inr (ucast (ucast diff div sz)))
      else if sz \<le> push_bit QUANTUM_2POW_MIN (of_nat (length size_invs)) + 2 then
        defined (3 \<le> unat (drop_bit QUANTUM_2POW_MIN sz))
          (Inr (drop_bit SIZE_INV_SHIFT
                  (size_invs ! (unat (drop_bit QUANTUM_2POW_MIN sz) - 3) * diff)))
      else Inr (ucast (ucast diff div sz)))"

definition arena_run_reg_dalloc ::
  "ptr \<Rightarrow> arena_run \<Rightarrow> arena_bin \<Rightarrow> ptr \<Rightarrow> size_t \<Rightarrow> abort + arena_run" where
  "arena_run_reg_dalloc run r b p sz =
     (let diff = (ucast (p - run - ucast (reg0_offset b)) :: 32 word)
      in case reg_index diff sz of
           Inl e \<Rightarrow> Inl e
         | Inr regind \<Rightarrow>
             diag_assert ((ucast diff :: size_t) = ucast regind * sz)
               (diag_assert (regind < nregs b)
                  (let elm = drop_bit (SIZEOF_INT_2POW + 3) regind;
                       minelm = (if elm < regs_minelm r then elm else regs_minelm r);
                       bit = unat (regind - push_bit (SIZEOF_INT_2POW + 3) elm)
                   in defined (unat elm < length (regs_mask r))
                        (diag_assert (regs_mask r ! unat elm AND push_bit bit 1 = 0)
                           (Inr (r\<lparr>regs_minelm := minelm,
                                   regs_mask := (regs_mask r)
                                     [unat elm := regs_mask r ! unat elm OR push_bit bit 1]\<rparr>))))))"

section \<open>Arena: small and large allocation\<close>

definition run_init :: "nat \<Rightarrow> arena_bin \<Rightarrow> arena_run" where
  "run_init bi b =
     (let remainder = nregs b AND (push_bit (SIZEOF_INT_2POW + 3) 1 - 1)
      in \<lparr>magic = ARENA_RUN_MAGIC, bin = bi, regs_minelm = 0, nfree = nregs b,
          regs_mask = replicate (unat (regs_mask_nelms b) - 1) UINT_MAX
            @ [if remainder = 0 then UINT_MAX
               else drop_bit (unat (push_bit (SIZEOF_INT_2POW + 3) 1 - remainder)) UINT_MAX]\<rparr>)"

definition GetNonFullBinRun :: "bool \<Rightarrow> heap \<Rightarrow> nat \<Rightarrow> abort + (ptr \<times> heap)" where
  "GetNonFullBinRun dc s bi =
     (let b = mBins s ! bi;
          mapelm = tree_First (runs b)
      in if mapelm \<noteq> nullptr then
           (case mapelm_bits s mapelm of
              None \<Rightarrow> Inl UndefinedBehaviour
            | Some bits \<Rightarrow>
                Inr (bits AND NOT pagesize_mask,
                     s\<lparr>mBins := (mBins s)[bi := b\<lparr>runs := remove1 mapelm (runs b)\<rparr>]\<rparr>))
         else
           (case AllocRun dc s (run_size b) False False of
              Inl e \<Rightarrow> Inl e
            | Inr (run, s1) \<Rightarrow>
                if run = nullptr then Inr (nullptr, s1)
                else if run = runcur b then Inr (run, s1)
                else
                  defined (0 < regs_mask_nelms b)
                    (Inr (run,
                          s1\<lparr>run_hdr := (run_hdr s1)(run \<mapsto> run_init bi b),
                             mBins := (mBins s1)[bi := (mBins s1 ! bi)
                                                   \<lparr>curruns := curruns (mBins s1 ! bi) + 1\<rparr>]\<rparr>))))"

definition MallocBinEasy :: "heap \<Rightarrow> nat \<Rightarrow> ptr \<Rightarrow> abort + (ptr \<times> heap)" where
  "MallocBinEasy s bi aRun =
     (case run_hdr s aRun of
        None \<Rightarrow> Inl UndefinedBehaviour
      | Some r \<Rightarrow>
          diag_assert (magic r = ARENA_RUN_MAGIC)
            (diag_assert (nfree r > 0)
               (case arena_run_reg_alloc aRun r (mBins s ! bi) of
                  Inl e \<Rightarrow> Inl e
                | Inr (ret, r1) \<Rightarrow>
                    diag_assert (ret \<noteq> nullptr)
                      (Inr (ret, s\<lparr>run_hdr := (run_hdr s)(aRun \<mapsto> r1\<lparr>nfree := nfree r1 - 1\<rparr>)\<rparr>)))))"

definition MallocBinHard :: "bool \<Rightarrow> heap \<Rightarrow> nat \<Rightarrow> abort + (ptr \<times> heap)" where
  "MallocBinHard dc s bi =
     (case GetNonFullBinRun dc s bi of
        Inl e \<Rightarrow> Inl e
      | Inr (run, s1) \<Rightarrow>
          (let s2 = s1\<lparr>mBins := (mBins s1)[bi := (mBins s1 ! bi)\<lparr>runcur := run\<rparr>]\<rparr>
           in if run = nullptr then Inr (nullptr, s2)
              else MallocBinEasy s2 bi run))"

definition MallocSmall :: "bool \<Rightarrow> heap \<Rightarrow> size_t \<Rightarrow> bool \<Rightarrow> abort + (ptr \<times> heap)" where
  "MallocSmall dc s aSize0 aZero =
     (case small_size_bin aSize0 of
        (aSize, bi) \<Rightarrow>
          defined (bi < length (mBins s))
            (let b = mBins s ! bi
             in diag_assert (aSize = reg_size b)
                  (case (if runcur b \<noteq> nullptr
                         then (case run_hdr s (runcur b) of
                                 None \<Rightarrow> Inl UndefinedBehaviour
                               | Some r \<Rightarrow>
                                   if nfree r > 0 then MallocBinEasy s bi (runcur b)
                                   else MallocBinHard dc s bi)
                         else MallocBinHard dc s bi) of
                     Inl e \<Rightarrow> Inl e
                   | Inr (ret, s1) \<Rightarrow>
                       if ret = nullptr then Inr (nullptr, s1)
                       else
                         (let s2 = s1\<lparr>mStats_allocated_small := mStats_allocated_small s1 + aSize\<rparr>
                          in if aZero = False then
                               (if opt_junk then Inr (ret, memset s2 ret kAllocJunk aSize)
                                else if opt_zero then Inr (ret, memset s2 ret 0 aSize)
                                else Inr (ret, s2))
                             else Inr (ret, memset s2 ret 0 aSize)))))"

definition MallocLarge :: "bool \<Rightarrow> heap \<Rightarrow> size_t \<Rightarrow> bool \<Rightarrow> abort + (ptr \<times> heap)" where
  "MallocLarge dc s aSize0 aZero =
     (let aSize = PAGE_CEILING aSize0
      in case AllocRun dc s aSize True aZero of
           Inl e \<Rightarrow> Inl e
         | Inr (ret, s1) \<Rightarrow>
             if ret = nullptr then Inr (nullptr, s1)
             else
               (let s2 = s1\<lparr>mStats_allocated_large := mStats_allocated_large s1 + aSize\<rparr>
                in if aZero = False then
                     (if opt_junk then Inr (ret, memset s2 ret kAllocJunk aSize)
                      else if opt_zero then Inr (ret, memset s2 ret 0 aSize)
                      else Inr (ret, s2))
                   else Inr (ret, s2)))"

definition arena_Malloc :: "bool \<Rightarrow> heap \<Rightarrow> size_t \<Rightarrow> bool \<Rightarrow> abort + (ptr \<times> heap)" where
  "arena_Malloc dc s aSize aZero =
     (if aSize \<le> bin_maxclass then MallocSmall dc s aSize aZero
      else MallocLarge dc s aSize aZero)"

definition Palloc :: "bool \<Rightarrow> heap \<Rightarrow> size_t \<Rightarrow> size_t \<Rightarrow> size_t \<Rightarrow> abort + (ptr \<times> heap)" where
  "Palloc dc s aAlignment aSize aAllocSize =
     (case AllocRun dc s aAllocSize True False of
        Inl e \<Rightarrow> Inl e
      | Inr (ret, s1) \<Rightarrow>
          if ret = nullptr then Inr (nullptr, s1)
          else
            (let chunk = CHUNK_ADDR2BASE ret;
                 offset = ret AND (aAlignment - 1)
             in case (if offset = 0
                      then (case TrimRunTail dc s1 chunk ret aAllocSize aSize False of
                              Inl e \<Rightarrow> Inl e | Inr s2 \<Rightarrow> Inr (ret, s2))
                      else
                        (let leadsize = aAlignment - offset
                         in case (if leadsize > 0
                                  then (case TrimRunHead dc s1 chunk ret aAllocSize
                                               (aAllocSize - leadsize) of
                                          Inl e \<Rightarrow> Inl e
                                        | Inr s2 \<Rightarrow> Inr (ret + leadsize, s2))
                                  else Inr (ret, s1)) of
                              Inl e \<Rightarrow> Inl e
                            | Inr (ret1, s2) \<Rightarrow>
                                (let trailsize = aAllocSize - leadsize - aSize
                                 in if trailsize \<noteq> 0
                                    then (case TrimRunTail dc s2 chunk ret1 (aSize + trailsize)
                                                 aSize False of
                                            Inl e \<Rightarrow> Inl e | Inr s3 \<Rightarrow> Inr (ret1, s3))
                                    else Inr (ret1, s2)))) of
                  Inl e \<Rightarrow> Inl e
                | Inr (ret2, s4) \<Rightarrow>
                    (let s5 = s4\<lparr>mStats_allocated_large := mStats_allocated_large s4 + aSize\<rparr>
                     in if opt_junk then Inr (ret2, memset s5 ret2 kAllocJunk aSize)
                        else if opt_zero then Inr (ret2, memset s5 ret2 0 aSize)
                        else Inr (ret2, s5))))"

section \<open>Huge allocations\<close>

definition huge_palloc :: "bool \<Rightarrow> heap \<Rightarrow> size_t \<Rightarrow> size_t \<Rightarrow> bool \<Rightarrow> ptr \<times> heap" where
  "huge_palloc dc s sz alignment zero =
     (let csize = CHUNK_CEILING sz
      in if csize = 0 then (nullptr, s)
         else
           (case base_node_alloc s of
              (ok, s1) \<Rightarrow>
                if \<not> ok then (nullptr, s1)
                else
                  (case chunk_alloc dc s1 csize alignment False of
                     (ret, zeroed, s2) \<Rightarrow>
                       if ret = nullptr then (nullptr, base_node_dealloc s2)
                       else
                         (let s3 = (if zero then chunk_ensure_zero s2 ret csize zeroed else s2);
                              psize = PAGE_CEILING sz;
                              s4 = s3\<lparr>huge := \<lparr>addr = ret, esize = psize, chunk_type = UNKNOWN_CHUNK\<rparr> # huge s3,
                                     huge_nmalloc := huge_nmalloc s3 + 1,
                                     huge_allocated := huge_allocated s3 + psize,
                                     huge_mapped := huge_mapped s3 + csize\<rparr>;
                              s5 = (if dc \<and> csize - psize > 0
                                    then pages_decommit s4 (ret + psize) (csize - psize) else s4);
                              fill = (if dc then psize else csize)
                          in if zero = False then
                               (if opt_junk then (ret, memset s5 ret kAllocJunk fill)
                                else if opt_zero then (ret, memset s5 ret 0 fill)
                                else (ret, s5))
                             else (ret, s5)))))"

definition huge_malloc :: "bool \<Rightarrow> heap \<Rightarrow> size_t \<Rightarrow> bool \<Rightarrow> ptr \<times> heap" where
  "huge_malloc dc s sz zero = huge_palloc dc s sz chunksize zero"

definition huge_dalloc :: "bool \<Rightarrow> heap \<Rightarrow> ptr \<Rightarrow> abort + heap" where
  "huge_dalloc dc s p =
     (case ad_Search (huge s) p of
        None \<Rightarrow> Inl UndefinedBehaviour
      | Some node \<Rightarrow>
          (let s1 = s\<lparr>huge := remove1 node (huge s),
                      huge_ndalloc := huge_ndalloc s + 1,
                      huge_allocated := huge_allocated s - esize node,
                      huge_mapped := huge_mapped s - CHUNK_CEILING (esize node)\<rparr>;
               s2 = chunk_dealloc dc s1 (addr node) (CHUNK_CEILING (esize node)) HUGE_CHUNK
           in Inr (base_node_dealloc s2)))"

section \<open>Sizes of live allocations\<close>

definition arena_salloc :: "heap \<Rightarrow> ptr \<Rightarrow> abort + size_t" where
  "arena_salloc s p =
     (let chunk = CHUNK_ADDR2BASE p
      in case chunk_get s chunk of
           None \<Rightarrow> Inl UndefinedBehaviour
         | Some ch \<Rightarrow>
             (let pageind = unat (drop_bit pagesize_2pow (p - chunk))
              in defined (pageind < unat chunk_npages)
                   (let mapbits = map_bits ch pageind
                    in diag_assert (mapbits AND CHUNK_MAP_ALLOCATED \<noteq> 0)
                         (if mapbits AND CHUNK_MAP_LARGE = 0 then
                            (case run_hdr s (mapbits AND NOT pagesize_mask) of
                               None \<Rightarrow> Inl UndefinedBehaviour
                             | Some r \<Rightarrow>
                                 diag_assert (magic r = ARENA_RUN_MAGIC)
                                   (defined (bin r < length (mBins s))
                                      (Inr (reg_size (mBins s ! bin r)))))
                          else
                            diag_assert (mapbits AND NOT pagesize_mask \<noteq> 0)
                              (Inr (mapbits AND NOT pagesize_mask))))))"

definition isalloc_validate :: "heap \<Rightarrow> ptr \<Rightarrow> abort + size_t" where
  "isalloc_validate s p =
     (if malloc_initialized s = False then Inr 0
      else
        (let chunk = CHUNK_ADDR2BASE p
         in if chunk = nullptr then Inr 0
            else if rtree_Get s chunk = nullptr then Inr 0
            else if chunk \<noteq> p then arena_salloc s p
            else (case ad_Search (huge s) chunk of
                    Some node \<Rightarrow> Inr (esize node)
                  | None \<Rightarrow> Inr 0)))"

definition isalloc :: "heap \<Rightarrow> ptr \<Rightarrow> abort + size_t" where
  "isalloc s p =
     (let chunk = CHUNK_ADDR2BASE p
      in if chunk \<noteq> p then arena_salloc s p
         else (case ad_Search (huge s) p of
                 None \<Rightarrow> Inl DiagnosticAssert
               | Some node \<Rightarrow> Inr (esize node)))"

definition malloc_usable_size :: "heap \<Rightarrow> ptr \<Rightarrow> abort + size_t" where
  "malloc_usable_size s p = isalloc_validate s p"

section \<open>Arena: freeing regions\<close>

definition DallocSmall :: "bool \<Rightarrow> heap \<Rightarrow> ptr \<Rightarrow> ptr \<Rightarrow> size_t \<Rightarrow> abort + heap" where
  "DallocSmall dc s aChunk aPtr mapbits =
     (let run = mapbits AND NOT pagesize_mask
      in case run_hdr s run of
           None \<Rightarrow> Inl UndefinedBehaviour
         | Some r \<Rightarrow>
             diag_assert (magic r = ARENA_RUN_MAGIC)
               (defined (bin r < length (mBins s))
                  (let bi = bin r;
                       b = mBins s ! bi;
                       sz = reg_size b
                   in diag_assert (aPtr \<ge> run + ucast (reg0_offset b))
                        (defined (sz \<noteq> 0)
                           (diag_assert ((aPtr - (run + ucast (reg0_offset b))) mod sz = 0)
                              (let s1 = memset s aPtr kAllocPoison sz
                               in case arena_run_reg_dalloc run r b aPtr sz of
                                    Inl e \<Rightarrow> Inl e
                                  | Inr r1 \<Rightarrow>
                                      (let r2 = r1\<lparr>nfree := nfree r1 + 1\<rparr>;
                                           run_mapelm = mapelm_addr aChunk
                                             (unat (drop_bit pagesize_2pow (run - aChunk)))
                                       in case
                                           (if nfree r2 = nregs b then
                                              (case (if run = runcur b
                                                     then Inr (b\<lparr>runcur := nullptr\<rparr>)
                                                     else if nregs b \<noteq> 1
                                                     then diag_assert (run_mapelm \<in> set (runs b))
                                                            (Inr (b\<lparr>runs := remove1 run_mapelm (runs b)\<rparr>))
                                                     else Inr b) of
                                                 Inl e \<Rightarrow> Inl e
                                               | Inr b1 \<Rightarrow>
                                                   (case DallocRun dc
                                                           (s1\<lparr>run_hdr := (run_hdr s1)(run \<mapsto> r2\<lparr>magic := 0\<rparr>),
                                                               mBins := (mBins s1)[bi := b1]\<rparr>)
                                                           run True of
                                                      Inl e \<Rightarrow> Inl e
                                                    | Inr s2 \<Rightarrow>
                                                        Inr (s2\<lparr>mBins := (mBins s2)
                                                               [bi := (mBins s2 ! bi)
                                                                  \<lparr>curruns := curruns (mBins s2 ! bi) - 1\<rparr>]\<rparr>)))
                                            else if nfree r2 = 1 \<and> run \<noteq> runcur b then
                                              (case (if runcur b = nullptr
                                                     then Inr (b\<lparr>runcur := run\<rparr>)
                                                     else if run < runcur b then
                                                       (case run_hdr s1 (runcur b) of
                                                          None \<Rightarrow> Inl UndefinedBehaviour
                                                        | Some rc \<Rightarrow>
                                                            if nfree rc > 0 then
                                                              (let runcur_chunk = CHUNK_ADDR2BASE (runcur b);
                                                                   runcur_mapelm = mapelm_addr runcur_chunk
                                                                     (unat (drop_bit pagesize_2pow
                                                                        (runcur b - runcur_chunk)))
                                                               in diag_assert (runcur_mapelm \<notin> set (runs b))
                                                                    (Inr (b\<lparr>runs := runcur_mapelm # runs b,
                                                                            runcur := run\<rparr>)))
                                                            else Inr (b\<lparr>runcur := run\<rparr>))
                                                     else diag_assert (run_mapelm \<notin> set (runs b))
                                                            (Inr (b\<lparr>runs := run_mapelm # runs b\<rparr>))) of
                                                 Inl e \<Rightarrow> Inl e
                                               | Inr b1 \<Rightarrow>
                                                   Inr (s1\<lparr>run_hdr := (run_hdr s1)(run \<mapsto> r2),
                                                           mBins := (mBins s1)[bi := b1]\<rparr>))
                                            else Inr (s1\<lparr>run_hdr := (run_hdr s1)(run \<mapsto> r2)\<rparr>)) of
                                           Inl e \<Rightarrow> Inl e
                                         | Inr s3 \<Rightarrow>
                                             Inr (s3\<lparr>mStats_allocated_small :=
                                                       mStats_allocated_small s3 - sz\<rparr>))))))))"

definition DallocLarge :: "bool \<Rightarrow> heap \<Rightarrow> ptr \<Rightarrow> ptr \<Rightarrow> abort + heap" where
  "DallocLarge dc s aChunk aPtr =
     diag_assert (aPtr AND pagesize_mask = 0)
       (case chunk_get s aChunk of
          None \<Rightarrow> Inl UndefinedBehaviour
        | Some ch \<Rightarrow>
            (let pageind = unat (drop_bit pagesize_2pow (aPtr - aChunk))
             in defined (pageind < unat chunk_npages)
                  (let sz = map_bits ch pageind AND NOT pagesize_mask;
                       s1 = memset s aPtr kAllocPoison sz;
                       s2 = s1\<lparr>mStats_allocated_large := mStats_allocated_large s1 - sz\<rparr>
                   in DallocRun dc s2 aPtr True)))"

definition arena_dalloc :: "bool \<Rightarrow> heap \<Rightarrow> ptr \<Rightarrow> size_t \<Rightarrow> abort + heap" where
  "arena_dalloc dc s p offset =
     (let chunk = p - offset
      in case chunk_get s chunk of
           None \<Rightarrow> Inl UndefinedBehaviour
         | Some ch \<Rightarrow>
             (let pageind = unat (drop_bit pagesize_2pow offset)
              in defined (pageind < unat chunk_npages)
                   (let mapbits = map_bits ch pageind
                    in diag_assert (mapbits AND CHUNK_MAP_ALLOCATED \<noteq> 0)
                         (if mapbits AND CHUNK_MAP_LARGE = 0
                          then DallocSmall dc s chunk p mapbits
                          else DallocLarge dc s chunk p))))"

definition idalloc :: "bool \<Rightarrow> heap \<Rightarrow> ptr \<Rightarrow> abort + heap" where
  "idalloc dc s p =
     (let offset = CHUNK_ADDR2OFFSET p
      in if offset \<noteq> 0 then arena_dalloc dc s p offset else huge_dalloc dc s p)"

section \<open>Arena: reallocation\<close>

definition RallocShrinkLarge :: "bool \<Rightarrow> heap \<Rightarrow> ptr \<Rightarrow> ptr \<Rightarrow> size_t \<Rightarrow> size_t \<Rightarrow> abort + heap" where
  "RallocShrinkLarge dc s aChunk aPtr aSize aOldSize =
     (case TrimRunTail dc s aChunk aPtr aOldSize aSize True of
        Inl e \<Rightarrow> Inl e
      | Inr s1 \<Rightarrow>
          Inr (s1\<lparr>mStats_allocated_large := mStats_allocated_large s1 - (aOldSize - aSize)\<rparr>))"

definition RallocGrowLarge ::
  "bool \<Rightarrow> heap \<Rightarrow> ptr \<Rightarrow> ptr \<Rightarrow> size_t \<Rightarrow> size_t \<Rightarrow> abort + (bool \<times> heap)" where
  "RallocGrowLarge dc s aChunk aPtr aSize aOldSize =
     (case chunk_get s aChunk of
        None \<Rightarrow> Inl UndefinedBehaviour
      | Some ch \<Rightarrow>
          (let pageind = unat (drop_bit pagesize_2pow (aPtr - aChunk));
               npages = npages_of aOldSize;
               bits = map_bits ch
           in defined (pageind < unat chunk_npages)
                (diag_assert (aOldSize = (bits pageind AND NOT pagesize_mask))
                   (if pageind + npages < unat chunk_npages
                       \<and> bits (pageind + npages) AND CHUNK_MAP_ALLOCATED = 0
                       \<and> (bits (pageind + npages) AND NOT pagesize_mask) \<ge> aSize - aOldSize
                    then
                      (case SplitRun dc s (page_addr aChunk (pageind + npages))
                              (aSize - aOldSize) True False of
                         Inl e \<Rightarrow> Inl e
                       | Inr s1 \<Rightarrow>
                           (case chunk_get s1 aChunk of
                              None \<Rightarrow> Inl UndefinedBehaviour
                            | Some ch1 \<Rightarrow>
                                (let bits1 = (map_bits ch1)
                                       (pageind := aSize OR CHUNK_MAP_LARGE OR CHUNK_MAP_ALLOCATED,
                                        pageind + npages := CHUNK_MAP_LARGE OR CHUNK_MAP_ALLOCATED)
                                 in Inr (False,
                                         s1\<lparr>chunk_hdr := (chunk_hdr s1)(aChunk \<mapsto> ch1\<lparr>map_bits := bits1\<rparr>),
                                            mStats_allocated_large :=
                                              mStats_allocated_large s1 + (aSize - aOldSize)\<rparr>))))
                    else Inr (True, s)))))"

definition arena_ralloc_large ::
  "bool \<Rightarrow> heap \<Rightarrow> ptr \<Rightarrow> size_t \<Rightarrow> size_t \<Rightarrow> abort + (bool \<times> heap)" where
  "arena_ralloc_large dc s p sz oldsize =
     (let psize = PAGE_CEILING sz
      in if psize = oldsize then
           Inr (False, if sz < oldsize then memset s (p + sz) kAllocPoison (oldsize - sz) else s)
         else
           (let chunk = CHUNK_ADDR2BASE p
            in if psize < oldsize then
                 (case RallocShrinkLarge dc (memset s (p + sz) kAllocPoison (oldsize - sz))
                         chunk p psize oldsize of
                    Inl e \<Rightarrow> Inl e
                  | Inr s1 \<Rightarrow> Inr (False, s1))
               else
                 (case RallocGrowLarge dc s chunk p psize oldsize of
                    Inl e \<Rightarrow> Inl e
                  | Inr (ret, s1) \<Rightarrow>
                      if ret = False \<and> opt_zero
                      then Inr (ret, memset s1 (p + oldsize) 0 (sz - oldsize))
                      else Inr (ret, s1))))"

text \<open>The class comparison at the head of arena_ralloc: is the allocation kept in place?\<close>

definition ralloc_same_class :: "size_t \<Rightarrow> size_t \<Rightarrow> bool" where
  "ralloc_same_class aSize aOldSize =
     (if aSize < small_min then
        aOldSize < small_min
        \<and> ffs (ucast (drop_bit (TINY_MIN_2POW + 1) (pow2_ceil aSize)))
            = ffs (ucast (drop_bit (TINY_MIN_2POW + 1) (pow2_ceil aOldSize)))
      else if aSize \<le> small_max then
        aOldSize \<ge> small_min \<and> aOldSize \<le> small_max
        \<and> drop_bit QUANTUM_2POW_MIN (QUANTUM_CEILING aSize)
            = drop_bit QUANTUM_2POW_MIN (QUANTUM_CEILING aOldSize)
      else if aSize \<le> bin_maxclass then
        aOldSize > small_max \<and> aOldSize \<le> bin_maxclass \<and> pow2_ceil aSize = pow2_ceil aOldSize
      else False)"

definition arena_ralloc :: "bool \<Rightarrow> heap \<Rightarrow> ptr \<Rightarrow> size_t \<Rightarrow> size_t \<Rightarrow> abort + (ptr \<times> heap)" where
  "arena_ralloc dc s aPtr aSize aOldSize =
     (if ralloc_same_class aSize aOldSize then
        (if aSize < aOldSize
         then Inr (aPtr, memset s (aPtr + aSize) kAllocPoison (aOldSize - aSize))
         else if opt_zero \<and> aSize > aOldSize
         then Inr (aPtr, memset s (aPtr + aOldSize) 0 (aSize - aOldSize))
         else Inr (aPtr, s))
      else
        (case (if \<not> aSize < small_min \<and> \<not> aSize \<le> small_max \<and> \<not> aSize \<le> bin_maxclass
                  \<and> aOldSize > bin_maxclass \<and> aOldSize \<le> arena_maxclass
               then arena_ralloc_large dc s aPtr aSize aOldSize
               else Inr (True, s)) of
           Inl e \<Rightarrow> Inl e
         | Inr (move, s1) \<Rightarrow>
             if move = False then Inr (aPtr, s1)
             else
               (case arena_Malloc dc s1 aSize False of
                  Inl e \<Rightarrow> Inl e
                | Inr (ret, s2) \<Rightarrow>
                    if ret = nullptr then Inr (nullptr, s2)
                    else
                      (let copysize = (if aSize < aOldSize then aSize else aOldSize)
                       in case idalloc dc (memcpy s2 ret aPtr copysize) aPtr of
                            Inl e \<Rightarrow> Inl e
                          | Inr s3 \<Rightarrow> Inr (ret, s3)))))"

definition huge_ralloc :: "bool \<Rightarrow> heap \<Rightarrow> ptr \<Rightarrow> size_t \<Rightarrow> size_t \<Rightarrow> abort + (ptr \<times> heap)" where
  "huge_ralloc dc s p sz oldsize =
     (if oldsize > arena_maxclass \<and> CHUNK_CEILING sz = CHUNK_CEILING oldsize then
        (let psize = PAGE_CEILING sz;
             s1 = (if sz < oldsize then memset s (p + sz) kAllocPoison (oldsize - sz) else s)
         in case (if dc then
                    (if psize < oldsize then
                       (case ad_Search (huge s1) p of
                          None \<Rightarrow> Inl UndefinedBehaviour
                        | Some node \<Rightarrow>
                            Inr ((pages_decommit s1 (p + psize) (oldsize - psize))
                                   \<lparr>huge := node\<lparr>esize := psize\<rparr> # remove1 node (huge s1),
                                    huge_allocated := huge_allocated s1 - (oldsize - psize)\<rparr>))
                     else if psize > oldsize
                     then Inr (pages_commit s1 (p + oldsize) (psize - oldsize))
                     else Inr s1)
                  else Inr s1) of
              Inl e \<Rightarrow> Inl e
            | Inr s2 \<Rightarrow>
                (case (if psize > oldsize then
                         (case ad_Search (huge s2) p of
                            None \<Rightarrow> Inl UndefinedBehaviour
                          | Some node \<Rightarrow>
                              Inr (s2\<lparr>huge := node\<lparr>esize := psize\<rparr> # remove1 node (huge s2),
                                      huge_allocated := huge_allocated s2 + (psize - oldsize)\<rparr>))
                       else Inr s2) of
                   Inl e \<Rightarrow> Inl e
                 | Inr s3 \<Rightarrow>
                     if opt_zero \<and> sz > oldsize
                     then Inr (p, memset s3 (p + oldsize) 0 (sz - oldsize))
                     else Inr (p, s3)))
      else
        (case huge_malloc dc s sz False of
           (ret, s1) \<Rightarrow>
             if ret = nullptr then Inr (nullptr, s1)
             else
               (let copysize = (if sz < oldsize then sz else oldsize)
                in case idalloc dc (memcpy s1 ret p copysize) p of
                     Inl e \<Rightarrow> Inl e
                   | Inr s2 \<Rightarrow> Inr (ret, s2))))"

section \<open>Internal entry points\<close>

definition imalloc :: "bool \<Rightarrow> heap \<Rightarrow> size_t \<Rightarrow> bool \<Rightarrow> abort + (ptr \<times> heap)" where
  "imalloc dc s aSize aZero =
     (if aSize \<le> arena_maxclass then arena_Malloc dc s aSize aZero
      else Inr (huge_malloc dc s aSize aZero))"

definition ipalloc :: "bool \<Rightarrow> heap \<Rightarrow> size_t \<Rightarrow> size_t \<Rightarrow> abort + (ptr \<times> heap)" where
  "ipalloc dc s aAlignment0 aSize =
     (let ceil_size = ALIGNMENT_CEILING aSize aAlignment0
      in if ceil_size < aSize then Inr (nullptr, s)
         else if ceil_size \<le> pagesize \<or> (aAlignment0 \<le> pagesize \<and> ceil_size \<le> arena_maxclass)
         then arena_Malloc dc s ceil_size False
         else
           (let aAlignment = PAGE_CEILING aAlignment0;
                ceil_size = PAGE_CEILING aSize
            in if ceil_size < aSize \<or> ceil_size + aAlignment < ceil_size then Inr (nullptr, s)
               else
                 (let run_size = (if ceil_size \<ge> aAlignment then ceil_size + aAlignment - pagesize
                                  else push_bit 1 aAlignment - pagesize)
                  in if run_size \<le> arena_maxclass then Palloc dc s aAlignment ceil_size run_size
                     else if aAlignment \<le> chunksize then Inr (huge_malloc dc s ceil_size False)
                     else Inr (huge_palloc dc s ceil_size aAlignment False))))"

definition iralloc :: "bool \<Rightarrow> heap \<Rightarrow> ptr \<Rightarrow> size_t \<Rightarrow> abort + (ptr \<times> heap)" where
  "iralloc dc s aPtr aSize =
     (case isalloc s aPtr of
        Inl e \<Rightarrow> Inl e
      | Inr oldsize \<Rightarrow>
          if aSize \<le> arena_maxclass then arena_ralloc dc s aPtr aSize oldsize
          else huge_ralloc dc s aPtr aSize oldsize)"

section \<open>Arena initialisation\<close>

definition mask_nelms_of :: "32 word \<Rightarrow> 32 word" where
  "mask_nelms_of n =
     drop_bit (SIZEOF_INT_2POW + 3) n
       + (if n AND (push_bit (SIZEOF_INT_2POW + 3) 1 - 1) \<noteq> 0 then 1 else 0)"

text \<open>
  The inner do-while loop of arena_bin_run_size_calc: reduce the number of regions until
  header and regions no longer overlap.  The loops are kept partial: a run of the loop
  that does not end is the value None.
\<close>

partial_function (option) calc_shrink ::
  "size_t \<Rightarrow> size_t \<Rightarrow> 32 word \<Rightarrow> (32 word \<times> 32 word \<times> 32 word) option" where
  "calc_shrink rsz try_run_size try_nregs0 =
     (let try_nregs = try_nregs0 - 1;
          try_mask_nelms = mask_nelms_of try_nregs;
          try_reg0_offset = (ucast (try_run_size - ucast try_nregs * rsz) :: 32 word)
      in if sizeof_arena_run_t + sizeof_unsigned * ucast (try_mask_nelms - 1) > ucast try_reg0_offset
         then calc_shrink rsz try_run_size try_nregs
         else Some (try_nregs, try_mask_nelms, try_reg0_offset))"

declare calc_shrink.simps [code]

partial_function (option) calc_expand ::
  "size_t \<Rightarrow> size_t \<Rightarrow> (32 word \<times> 32 word \<times> 32 word)
    \<Rightarrow> (size_t \<times> 32 word \<times> 32 word \<times> 32 word) option" where
  "calc_expand rsz try_run_size0 try =
     (let good_run_size = try_run_size0;
          try_run_size = try_run_size0 + pagesize
      in case calc_shrink rsz try_run_size
                (ucast ((try_run_size - sizeof_arena_run_t) div rsz) + 1) of
           None \<Rightarrow> None
         | Some (try_nregs, try_mask_nelms, try_reg0_offset) \<Rightarrow>
             if try_run_size \<le> arena_maxclass
                \<and> RUN_MAX_OVRHD * push_bit 3 rsz > RUN_MAX_OVRHD_RELAX
                \<and> ucast (push_bit RUN_BFP try_reg0_offset) > RUN_MAX_OVRHD * try_run_size
             then calc_expand rsz try_run_size (try_nregs, try_mask_nelms, try_reg0_offset)
             else Some (good_run_size, try))"

declare calc_expand.simps [code]

definition arena_bin_run_size_calc :: "size_t \<Rightarrow> size_t \<Rightarrow> arena_bin option" where
  "arena_bin_run_size_calc rsz min_run_size =
     (if rsz = 0 then None
      else case calc_shrink rsz min_run_size
                  (ucast ((min_run_size - sizeof_arena_run_t) div rsz) + 1) of
             None \<Rightarrow> None
           | Some try \<Rightarrow>
               (case calc_expand rsz min_run_size try of
                  None \<Rightarrow> None
                | Some (good_run_size, good_nregs, good_mask_nelms, good_reg0_offset) \<Rightarrow>
                    Some \<lparr>runcur = nullptr, runs = [], reg_size = rsz, run_size = good_run_size,
                          nregs = good_nregs, regs_mask_nelms = good_mask_nelms,
                          reg0_offset = good_reg0_offset, curruns = 0\<rparr>))"

definition bin_reg_size :: "nat \<Rightarrow> size_t" where
  "bin_reg_size i =
     (if i < ntbins then push_bit (TINY_MIN_2POW + i) 1
      else if i < ntbins + nqbins then quantum * of_nat (i - ntbins + 1)
      else push_bit (i - (ntbins + nqbins) + 1) small_max)"

fun arena_Init_bins :: "nat \<Rightarrow> nat \<Rightarrow> size_t \<Rightarrow> arena_bin list option" where
  "arena_Init_bins i 0 prev_run_size = Some []"
| "arena_Init_bins i (Suc n) prev_run_size =
     (case arena_bin_run_size_calc (bin_reg_size i) prev_run_size of
        None \<Rightarrow> None
      | Some b \<Rightarrow>
          (case arena_Init_bins (Suc i) n (run_size b) of
             None \<Rightarrow> None
           | Some bs \<Rightarrow> Some (b # bs)))"

section \<open>Initialisation\<close>

text \<open>
  malloc_init_hard for the single (main) arena.  MALLOC_OPTIONS is not parsed: the value
  of opt_dirty_max is part of the state.  The result is the flag the source returns
  (true on failure).
\<close>

definition malloc_init_hard :: "heap \<Rightarrow> abort + (bool \<times> heap)" where
  "malloc_init_hard s =
     (if malloc_initialized s then Inr (False, s)
      else
        (let s1 = s\<lparr>recycled_size := 0, chunks_mmap := [], huge := [],
                    huge_nmalloc := 0, huge_ndalloc := 0, huge_allocated := 0, huge_mapped := 0,
                    base_nodes := 0\<rparr>
         in case base_alloc s1 of
              (ok, s2) \<Rightarrow>
                if \<not> ok then Inr (True, s2)
                else
                  (case arena_Init_bins 0 (ntbins + nqbins + nsbins) pagesize of
                     None \<Rightarrow> Inl Diverges
                   | Some bins \<Rightarrow>
                       (let s3 = s2\<lparr>mStats_mapped := 0, mStats_committed := 0,
                                    mStats_allocated_small := 0, mStats_allocated_large := 0,
                                    mChunksDirty := [], mSpare := nullptr, mNumDirty := 0,
                                    mMaxDirty := opt_dirty_max s2, mRunsAvail := [], mBins := bins,
                                    chunk_hdr := (\<lambda>a. None), run_hdr := (\<lambda>a. None)\<rparr>
                        in case base_alloc s3 of
                             (ok2, s4) \<Rightarrow>
                               if \<not> ok2 then Inr (True, s4)
                               else Inr (False, s4\<lparr>gChunkRTree := (\<lambda>k. None),
                                                   malloc_initialized := True\<rparr>)))))"

definition malloc_init :: "heap \<Rightarrow> abort + (bool \<times> heap)" where
  "malloc_init s = (if malloc_initialized s = False then malloc_init_hard s else Inr (False, s))"

section \<open>malloc(3)-compatible functions\<close>

text \<open>BaseAllocator with mArena = nullptr, which selects the main arena.\<close>

definition moz_malloc :: "bool \<Rightarrow> heap \<Rightarrow> size_t \<Rightarrow> abort + (ptr \<times> heap)" where
  "moz_malloc dc s aSize =
     (case malloc_init s of
        Inl e \<Rightarrow> Inl e
      | Inr (failed, s1) \<Rightarrow>
          if failed then Inr (nullptr, s1)
          else imalloc dc s1 (if aSize = 0 then 1 else aSize) False)"

definition moz_memalign :: "bool \<Rightarrow> heap \<Rightarrow> size_t \<Rightarrow> size_t \<Rightarrow> abort + (ptr \<times> heap)" where
  "moz_memalign dc s aAlignment aSize =
     (case malloc_init s of
        Inl e \<Rightarrow> Inl e
      | Inr (failed, s1) \<Rightarrow>
          if failed then Inr (nullptr, s1)
          else ipalloc dc s1 (if aAlignment < sizeof_ptr then sizeof_ptr else aAlignment)
                 (if aSize = 0 then 1 else aSize))"

definition SIZE_T_MAX :: size_t where
  "SIZE_T_MAX = - 1"

definition moz_calloc :: "bool \<Rightarrow> heap \<Rightarrow> size_t \<Rightarrow> size_t \<Rightarrow> abort + (ptr \<times> heap)" where
  "moz_calloc dc s aNum aSize =
     (case malloc_init s of
        Inl e \<Rightarrow> Inl e
      | Inr (failed, s1) \<Rightarrow>
          if failed then Inr (nullptr, s1)
          else
            (let num_size = aNum * aSize
             in if num_size = 0 then imalloc dc s1 1 True
                else if ((aNum OR aSize) AND push_bit 32 SIZE_T_MAX) \<noteq> 0
                        \<and> num_size div aSize \<noteq> aNum
                then Inr (nullptr, s1)
                else imalloc dc s1 num_size True))"

definition moz_realloc :: "bool \<Rightarrow> heap \<Rightarrow> ptr \<Rightarrow> size_t \<Rightarrow> abort + (ptr \<times> heap)" where
  "moz_realloc dc s aPtr aSize0 =
     (let aSize = (if aSize0 = 0 then 1 else aSize0)
      in if aPtr \<noteq> nullptr then iralloc dc s aPtr aSize
         else
           (case malloc_init s of
              Inl e \<Rightarrow> Inl e
            | Inr (failed, s1) \<Rightarrow>
                if failed then Inr (nullptr, s1) else imalloc dc s1 aSize False))"

definition moz_free :: "bool \<Rightarrow> heap \<Rightarrow> ptr \<Rightarrow> abort + heap" where
  "moz_free dc s aPtr =
     (let offset = CHUNK_ADDR2OFFSET aPtr
      in if offset \<noteq> 0 then arena_dalloc dc s aPtr offset
         else if aPtr \<noteq> nullptr then huge_dalloc dc s aPtr
         else Inr s)"

definition moz_posix_memalign ::
  "bool \<Rightarrow> heap \<Rightarrow> ptr \<Rightarrow> size_t \<Rightarrow> size_t \<Rightarrow> abort + (int \<times> ptr \<times> heap)" where
  "moz_posix_memalign dc = posix_memalign (moz_memalign dc)"

definition moz_aligned_alloc :: "bool \<Rightarrow> heap \<Rightarrow> size_t \<Rightarrow> size_t \<Rightarrow> abort + (ptr \<times> heap)" where
  "moz_aligned_alloc dc = aligned_alloc (moz_memalign dc)"

text \<open>The state of a process before the allocator is used.\<close>

definition heap0 :: "ptr list \<Rightarrow> nat \<Rightarrow> size_t \<Rightarrow> heap" where
  "heap0 tape budget dirty_max =
     \<lparr>mem = (\<lambda>a. 0), vm_mapped = [], os_tape = tape, base_budget = budget, base_nodes = 0,
      malloc_initialized = False, opt_dirty_max = dirty_max, gChunkRTree = (\<lambda>k. None),
      chunks_mmap = [], recycled_size = 0, huge = [], huge_nmalloc = 0, huge_ndalloc = 0,
      huge_allocated = 0, huge_mapped = 0, chunk_hdr = (\<lambda>a. None), run_hdr = (\<lambda>a. None),
      mStats_mapped = 0, mStats_committed = 0, mStats_allocated_small = 0,
      mStats_allocated_large = 0, mChunksDirty = [], mSpare = nullptr, mNumDirty = 0,
      mMaxDirty = 0, mRunsAvail = [], mBins = []\<rparr>"

text \<open>
  The bins that arena_t::Init computes for this build (region size, run size, regions per
  run, mask words, offset of the first region), and the state after initialisation.
\<close>

definition fresh_bin :: "size_t \<Rightarrow> size_t \<Rightarrow> 32 word \<Rightarrow> 32 word \<Rightarrow> 32 word \<Rightarrow> arena_bin" where
  "fresh_bin rsz rs n m off =
     \<lparr>runcur = nullptr, runs = [], reg_size = rsz, run_size = rs, nregs = n,
      regs_mask_nelms = m, reg0_offset = off, curruns = 0\<rparr>"

definition bins_table :: "arena_bin list" where
  "bins_table =
    [fresh_bin 8 4096 500 16 96,
     fresh_bin 16 4096 252 8 64,
     fresh_bin 32 4096 126 4 64,
     fresh_bin 48 4096 84 3 64,
     fresh_bin 64 4096 63 2 64,
     fresh_bin 80 4096 50 2 96,
     fresh_bin 96 8192 84 3 128,
     fresh_bin 112 8192 72 3 128,
     fresh_bin 128 8192 63 2 128,
     fresh_bin 144 8192 56 2 128,
     fresh_bin 160 8192 50 2 192,
     fresh_bin 176 8192 46 2 96,
     fresh_bin 192 12288 63 2 192,
     fresh_bin 208 12288 58 2 224,
     fresh_bin 224 16384 72 3 256,
     fresh_bin 240 16384 68 3 64,
     fresh_bin 256 16384 63 2 256,
     fresh_bin 272 16384 60 2 64,
     fresh_bin 288 20480 70 3 320,
     fresh_bin 304 20480 67 3 112,
     fresh_bin 320 20480 63 2 320,
     fresh_bin 336 20480 60 2 320,
     fresh_bin 352 20480 58 2 64,
     fresh_bin 368 20480 55 2 240,
     fresh_bin 384 24576 63 2 384,
     fresh_bin 400 24576 61 2 176,
     fresh_bin 416 24576 58 2 448,
     fresh_bin 432 24576 56 2 384,
     fresh_bin 448 28672 63 2 448,
     fresh_bin 464 28672 61 2 368,
     fresh_bin 480 28672 59 2 352,
     fresh_bin 496 32768 65 3 528,
     fresh_bin 512 32768 63 2 512,
     fresh_bin 1024 65536 63 2 1024,
     fresh_bin 2048 135168 65 3 2048]"

lemma arena_Init_bins_table:
  "arena_Init_bins 0 (ntbins + nqbins + nsbins) pagesize = Some bins_table"
  by code_simp

definition heap1 :: "ptr list \<Rightarrow> nat \<Rightarrow> size_t \<Rightarrow> heap" where
  "heap1 tape budget dirty_max =
     (heap0 tape budget dirty_max)
       \<lparr>malloc_initialized := True, mMaxDirty := dirty_max, mBins := bins_table\<rparr>"

lemma malloc_init_heap0:
  "malloc_init (heap0 tape (Suc (Suc budget)) dirty_max) = Inr (False, heap1 tape budget dirty_max)"
  by (simp add: malloc_init_def malloc_init_hard_def heap0_def heap1_def base_alloc_def
      arena_Init_bins_table Let_def)

section \<open>Running the model on concrete states\<close>

text \<open>
  The defining equations of the model, for the simplifier to run it on a concrete state.
  The table of bins is kept folded; bins_table_def and fresh_bin_def are added where a
  small allocation needs it.
\<close>

lemmas model_defs =
  nullptr_def sizeof_ptr_def EINVAL_def ENOMEM_def QUANTUM_2POW_MIN_def SIZEOF_INT_2POW_def
  TINY_MIN_2POW_def SMALL_MAX_2POW_DEFAULT_def CHUNK_2POW_DEFAULT_def DIRTY_MAX_DEFAULT_def
  RUN_BFP_def RUN_MAX_OVRHD_def RUN_MAX_OVRHD_RELAX_def CHUNK_RECYCLE_LIMIT_def quantum_def
  quantum_mask_def small_min_def small_max_def ntbins_def nqbins_def pagesize_2pow_def
  pagesize_def pagesize_mask_def bin_maxclass_def nsbins_def chunksize_def chunksize_mask_def
  chunk_npages_def sizeof_unsigned_def sizeof_arena_run_t_def sizeof_arena_chunk_map_t_def
  sizeof_arena_chunk_t_def offsetof_map_def calculate_arena_header_size_def
  arena_chunk_header_npages_def arena_maxclass_def recycle_limit_def kAllocJunk_def
  kAllocPoison_def opt_junk_def opt_zero_def ARENA_RUN_MAGIC_def CHUNK_MAP_MADVISED_def
  CHUNK_MAP_DECOMMITTED_def CHUNK_MAP_MADVISED_OR_DECOMMITTED_def CHUNK_MAP_KEY_def
  CHUNK_MAP_DIRTY_def CHUNK_MAP_ZEROED_def CHUNK_MAP_LARGE_def CHUNK_MAP_ALLOCATED_def
  CHUNK_ADDR2BASE_def CHUNK_ADDR2OFFSET_def CHUNK_CEILING_def QUANTUM_CEILING_def
  PAGE_CEILING_def ALIGNMENT_ADDR2OFFSET_def ALIGNMENT_CEILING_def pow2_ceil_def ffs_def
  malloc_good_size_def small_size_bin_def is_power_of_two_def posix_memalign_def
  aligned_alloc_def memalign_oom_def memset_def memcpy_def region_free_def region_cut_def
  pages_map_def pages_unmap_def pages_decommit_def pages_commit_def madvise_dontneed_def
  madvise_free_def pages_trim_def chunk_alloc_mmap_slow_loop.simps base_alloc_def
  base_node_alloc_def base_node_dealloc_def rtree_key_def rtree_Get_def rtree_Set_def
  rtree_Unset_def min_by_def szad_le_def ad_le_def szad_SearchOrNext_def ad_SearchOrNext_def
  ad_Prev_def ad_Search_def pages_purge_def chunk_ensure_zero_def chunk_record_def
  chunk_dealloc_def chunk_recycle_def chunk_alloc_mmap_slow_def chunk_alloc_mmap_def
  chunk_alloc_def diag_assert_def defined_def tree_Insert_def tree_Remove_def tree_First_def
  tree_Last_def mapelm_addr_def mapelm_pageind_def chunk_get_def mapelm_bits_def npages_of_def
  page_addr_def hdr_npages_def set_size_def SplitRun_group.simps SplitRun_pages.simps
  SplitRun_def InitChunk_def DeallocChunk_def avail_size_def avail_le_def
  avail_SearchOrNext_def AllocRun_def Purge_adjacent.simps Purge_group_def Purge_chunk.simps
  Purge_step_def Purge_loop.simps Purge_def mark_dirty_def mark_unallocated_def
  DallocRun_forward_def DallocRun_backward_def DallocRun_coalesce_def DallocRun_def
  TrimRunHead_def TrimRunTail_def UINT_MAX_def region_addr_def arena_run_reg_alloc_def
  SIZE_INV_SHIFT_def SIZE_INV_def size_invs_def log2_table_def reg_index_def
  arena_run_reg_dalloc_def run_init_def GetNonFullBinRun_def MallocBinEasy_def
  MallocBinHard_def MallocSmall_def MallocLarge_def arena_Malloc_def Palloc_def
  huge_palloc_def huge_malloc_def huge_dalloc_def arena_salloc_def isalloc_validate_def
  isalloc_def malloc_usable_size_def DallocSmall_def DallocLarge_def arena_dalloc_def
  idalloc_def RallocShrinkLarge_def RallocGrowLarge_def arena_ralloc_large_def
  ralloc_same_class_def arena_ralloc_def huge_ralloc_def imalloc_def ipalloc_def iralloc_def
  moz_malloc_def moz_memalign_def SIZE_T_MAX_def moz_calloc_def moz_realloc_def moz_free_def
  moz_posix_memalign_def moz_aligned_alloc_def heap1_def
  malloc_init_def heap0_def heap1_def Let_def upt_rec

definition isOK :: "abort + 'a \<Rightarrow> bool" where
  "isOK r = (case r of Inl _ \<Rightarrow> False | Inr _ \<Rightarrow> True)"

lemma isOK_E: "isOK r \<Longrightarrow> (\<And>x. r = Inr x \<Longrightarrow> P) \<Longrightarrow> P"
  by (cases r) (auto simp: isOK_def)

text \<open>
  An initialised heap with a dirty-page cap of two pages, and the state after one large
  allocation of three pages in it: the run at 0x7f0000002000.
\<close>

definition small_cap_heap :: heap where
  "small_cap_heap = heap1 [0x7f0000000000] 100 2"

definition three_pages_state :: heap where
  "three_pages_state =
     (case moz_malloc False small_cap_heap 12288 of
        Inr (p, s) \<Rightarrow> s
      | Inl e \<Rightarrow> small_cap_heap)"

text \<open>
  An initialised heap whose operating system hands out two regions four chunks apart, and
  the state after malloc(3 * chunksize) in it under MALLOC_DECOMMIT: a huge allocation at
  0x7f0000000000.
\<close>

definition two_chunk_heap :: heap where
  "two_chunk_heap = heap1 [0x7f0000000000, 0x7f0000400000] 100 1024"

definition huge3_state :: heap where
  "huge3_state =
     (case moz_malloc True two_chunk_heap (3 * chunksize) of
        Inr (p, s) \<Rightarrow> s
      | Inl e \<Rightarrow> two_chunk_heap)"



section \<open>The budget of the chunk recycler\<close>



definition recycle_same :: "heap \<Rightarrow> heap \<Rightarrow> bool" where
  "recycle_same s s1 \<longleftrightarrow> chunks_mmap s1 = chunks_mmap s \<and> recycled_size s1 = recycled_size s"


section \<open>Fields that an operation leaves alone\<close>

text \<open>The bookkeeping of huge allocations is the same in two states.\<close>

definition huge_same :: "heap \<Rightarrow> heap \<Rightarrow> bool" where
  "huge_same s s1 \<longleftrightarrow> huge s1 = huge s \<and> huge_mapped s1 = huge_mapped s
     \<and> huge_allocated s1 = huge_allocated s"


section \<open>Facts about the bit tricks\<close>

lemma nat_pow2_trick:
  "0 < n \<Longrightarrow> ((n - 1) AND n = (0::nat)) \<longleftrightarrow> (\<exists>k. n = 2 ^ k)"
proof (induction n rule: less_induct)
  case (less n)
  show ?case
  proof (cases "even n")
    case True
    then obtain m where m: "n = 2 * m" by (auto elim: evenE)
    with less.prems have mpos: "0 < m" by simp
    have pred: "(n - 1) div 2 = m - 1" using m mpos by simp
    have oddp: "odd (n - 1)" using m mpos by simp
    have "(n - 1) AND n = 2 * ((m - 1) AND m)"
      using m pred oddp by (subst and_rec) simp
    moreover have "((m - 1) AND m = 0) \<longleftrightarrow> (\<exists>k. m = 2 ^ k)"
      using less.IH [of m] m mpos by simp
    moreover have "(\<exists>k. m = 2 ^ k) \<longleftrightarrow> (\<exists>k. n = 2 ^ k)"
    proof
      assume "\<exists>k. m = 2 ^ k"
      then obtain k where "m = 2 ^ k" ..
      then have "n = 2 ^ Suc k" using m by simp
      then show "\<exists>k. n = 2 ^ k" ..
    next
      assume "\<exists>k. n = 2 ^ k"
      then obtain k where k: "n = 2 ^ k" ..
      with True less.prems have "k \<noteq> 0" by (cases k) auto
      then obtain j where "k = Suc j" by (cases k) auto
      with k m have "m = 2 ^ j" by simp
      then show "\<exists>k. m = 2 ^ k" ..
    qed
    ultimately show ?thesis by simp
  next
    case False
    then obtain m where m: "n = 2 * m + 1" by (auto elim: oddE)
    have "(n - 1) AND n = 2 * (m AND m)"
      using m by (subst and_rec) simp
    then have l: "((n - 1) AND n = 0) \<longleftrightarrow> m = 0" by simp
    have "(\<exists>k. n = 2 ^ k) \<longleftrightarrow> m = 0"
    proof
      assume "\<exists>k. n = 2 ^ k"
      then obtain k where k: "n = 2 ^ k" ..
      with False have "k = 0" by (cases k) auto
      with k m show "m = 0" by simp
    next
      assume "m = 0"
      then have "n = 2 ^ 0" using m by simp
      then show "\<exists>k. n = 2 ^ k" ..
    qed
    with l show ?thesis by simp
  qed
qed

lemma unat_2p64: "k < 64 \<Longrightarrow> unat (2 ^ k :: 64 word) = 2 ^ k"
proof -
  assume k: "k < 64"
  have lt: "(2::nat) ^ k < 2 ^ 64" using k by (rule power_strict_increasing) simp
  have "unat (of_nat (2 ^ k) :: 64 word) = 2 ^ k mod 2 ^ LENGTH(64)"
    by (simp only: unat_of_nat)
  also have "\<dots> = 2 ^ k" using lt by simp
  finally show ?thesis by simp
qed

lemma word_pow2_trick:
  "((a - 1) AND a = 0) \<longleftrightarrow> (a = 0 \<or> (\<exists>k<64. a = 2 ^ k))" for a :: "64 word"
proof (cases "a = 0")
  case True
  then show ?thesis by simp
next
  case False
  then have pos: "0 < unat a" by (simp add: unat_gt_0)
  have u1: "unat (a - 1) = unat a - 1" using False by (simp add: unat_minus_one)
  have "((a - 1) AND a = 0) \<longleftrightarrow> (unat ((a - 1) AND a) = 0)" by (simp add: unat_eq_0)
  also have "\<dots> \<longleftrightarrow> ((unat a - 1) AND unat a = 0)" by (simp add: unsigned_and_eq u1)
  also have "\<dots> \<longleftrightarrow> (\<exists>k. unat a = 2 ^ k)" using nat_pow2_trick [OF pos] .
  also have "\<dots> \<longleftrightarrow> (\<exists>k<64. a = 2 ^ k)"
  proof
    assume "\<exists>k. unat a = 2 ^ k"
    then obtain k where k: "unat a = 2 ^ k" ..
    have "unat a < 2 ^ LENGTH(64)" by (rule unsigned_less)
    with k have "(2::nat) ^ k < 2 ^ LENGTH(64)" by (simp only:)
    then have "k < LENGTH(64)" by (rule power_less_imp_less_exp [rotated]) simp
    then have k64: "k < 64" by simp
    have "a = of_nat (unat a)" by simp
    also have "\<dots> = 2 ^ k" using k by simp
    finally show "\<exists>k<64. a = 2 ^ k" using k64 by blast
  next
    assume "\<exists>k<64. a = 2 ^ k"
    then obtain k where "k < 64" "a = 2 ^ k" by blast
    then have "unat a = 2 ^ k" by (simp add: unat_2p64)
    then show "\<exists>k. unat a = 2 ^ k" ..
  qed
  finally show ?thesis using False by simp
qed

lemma posix_memalign_guard:
  "(((a - 1) AND a) \<noteq> 0 \<or> a < sizeof_ptr) \<longleftrightarrow> (\<not> is_power_of_two a \<or> a < sizeof_ptr)"
proof -
  have "is_power_of_two a \<longleftrightarrow> (\<exists>k<64. a = 2 ^ k)"
    by (auto simp: is_power_of_two_def)
  then show ?thesis
    using word_pow2_trick [of a] by (auto simp: sizeof_ptr_def)
qed

lemma word_mod_eq_0_dvd:
  "b \<noteq> 0 \<Longrightarrow> (a mod b = 0) \<longleftrightarrow> (unat b dvd unat a)" for a b :: "64 word"
proof -
  have "(a mod b = 0) \<longleftrightarrow> (unat (a mod b) = 0)" by (simp add: unat_eq_0)
  also have "\<dots> \<longleftrightarrow> (unat a mod unat b = 0)" by (simp add: unat_mod)
  also have "\<dots> \<longleftrightarrow> (unat b dvd unat a)" by (simp add: dvd_eq_mod_eq_0)
  finally show ?thesis .
qed

section \<open>Values of the build constants\<close>

lemma consts_val:
  "pagesize = 4096" "pagesize_mask = 4095" "chunksize = 0x100000" "chunksize_mask = 0xfffff"
  "chunk_npages = 256" "arena_chunk_header_npages = 2" "arena_maxclass = 1040384"
  "hdr_npages = 2" "unat chunk_npages = 256" "quantum = 16" "quantum_mask = 15"
  "small_min = 9" "small_max = 512" "bin_maxclass = 2048" "ntbins = 1" "nqbins = 32" "nsbins = 2"
  "recycle_limit = 0x8000000"
  by (simp_all add: pagesize_def pagesize_mask_def chunksize_def chunksize_mask_def
      chunk_npages_def arena_chunk_header_npages_def arena_maxclass_def hdr_npages_def
      calculate_arena_header_size_def sizeof_arena_chunk_t_def sizeof_arena_chunk_map_t_def
      pagesize_2pow_def CHUNK_2POW_DEFAULT_def quantum_def quantum_mask_def small_min_def
      small_max_def bin_maxclass_def ntbins_def nqbins_def nsbins_def QUANTUM_2POW_MIN_def
      TINY_MIN_2POW_def SMALL_MAX_2POW_DEFAULT_def recycle_limit_def CHUNK_RECYCLE_LIMIT_def)

section \<open>Claims about the aligned allocation wrappers\<close>

text \<open>
  C7.  posix_memalign returns EINVAL exactly when the alignment is not a power of two or
  is smaller than sizeof(void*).  In that case the wrapped memalign is not called: the
  result does not depend on it, the state and *aMemPtr are returned unchanged, and the
  call returns normally.  When the alignment is valid and memalign returns nullptr, the
  result is ENOMEM with *aMemPtr unchanged.
\<close>

theorem posix_memalign_EINVAL_iff:
  "((\<exists>p s'. posix_memalign memalign s out a n = Inr (EINVAL, p, s'))
      \<longleftrightarrow> (\<not> is_power_of_two a \<or> a < sizeof_ptr))
   \<and> ((\<not> is_power_of_two a \<or> a < sizeof_ptr)
      \<longrightarrow> posix_memalign memalign s out a n = Inr (EINVAL, out, s))
   \<and> (\<not> (\<not> is_power_of_two a \<or> a < sizeof_ptr) \<longrightarrow> memalign s a n = Inr (nullptr, s1)
      \<longrightarrow> posix_memalign memalign s out a n = Inr (ENOMEM, out, s1))"
proof -
  let ?bad = "\<not> is_power_of_two a \<or> a < sizeof_ptr"
  have guard: "(((a - 1) AND a) \<noteq> 0 \<or> a < sizeof_ptr) \<longleftrightarrow> ?bad"
    by (rule posix_memalign_guard)
  have inval: "?bad \<Longrightarrow> posix_memalign memalign s out a n = Inr (EINVAL, out, s)"
    using guard by (simp add: posix_memalign_def)
  have valid: "\<not> ?bad \<Longrightarrow> \<not> (\<exists>p s'. posix_memalign memalign s out a n = Inr (EINVAL, p, s'))"
    using guard
    by (auto simp: posix_memalign_def EINVAL_def ENOMEM_def split: sum.splits if_splits)
  have oom: "\<not> ?bad \<Longrightarrow> memalign s a n = Inr (nullptr, s1)
      \<Longrightarrow> posix_memalign memalign s out a n = Inr (ENOMEM, out, s1)"
    using guard by (simp add: posix_memalign_def)
  show ?thesis
    using inval valid oom by blast
qed

theorem posix_memalign_EINVAL_iff_witness:
  "posix_memalign memalign_oom () 7 24 100 = Inr (EINVAL, 7, ())
   \<and> posix_memalign memalign_oom () 7 4 100 = Inr (EINVAL, 7, ())
   \<and> posix_memalign memalign_oom () 7 16 100 = Inr (ENOMEM, 7, ())
   \<and> is_power_of_two 16 \<and> \<not> is_power_of_two 24"
proof -
  have p16: "is_power_of_two 16"
    unfolding is_power_of_two_def by (rule bexI [of _ 4]) simp_all
  have p24: "\<not> is_power_of_two 24"
    using posix_memalign_guard [of 24] by (simp add: sizeof_ptr_def)
  have p4: "(4::size_t) < sizeof_ptr" by (simp add: sizeof_ptr_def)
  have ok16: "\<not> (\<not> is_power_of_two 16 \<or> (16::size_t) < sizeof_ptr)"
    using p16 by (simp add: sizeof_ptr_def)
  have m: "memalign_oom () 16 100 = Inr (nullptr, ())" by (simp add: memalign_oom_def)
  show ?thesis
    using posix_memalign_EINVAL_iff [of memalign_oom "()" 7 24 100 "()"]
      posix_memalign_EINVAL_iff [of memalign_oom "()" 7 4 100 "()"]
      posix_memalign_EINVAL_iff [of memalign_oom "()" 7 16 100 "()"]
      p16 p24 p4 ok16 m
    by simp
qed

text \<open>
  C10.  For every non-zero alignment: a size that is not a multiple of the alignment
  yields nullptr with the state untouched (memalign is not called), and a size that is a
  multiple behaves exactly like memalign.  The alignment 0 is left out here: the code
  does not guard aSize % aAlignment against it, see below.
\<close>

theorem aligned_alloc_nonzero:
  "a \<noteq> 0 \<Longrightarrow>
     (\<not> unat a dvd unat n \<longrightarrow> aligned_alloc memalign s a n = Inr (nullptr, s))
     \<and> (unat a dvd unat n \<longrightarrow> aligned_alloc memalign s a n = memalign s a n)"
  by (simp add: aligned_alloc_def word_mod_eq_0_dvd)

theorem aligned_alloc_nonzero_witness:
  "(16::size_t) \<noteq> 0 \<and> \<not> unat (16::size_t) dvd unat (100::size_t)
   \<and> aligned_alloc memalign_oom () 16 100 = Inr (nullptr, ())
   \<and> unat (16::size_t) dvd unat (160::size_t)
   \<and> aligned_alloc memalign_oom () 16 160 = memalign_oom () 16 160"
  using aligned_alloc_nonzero [of 16 100 memalign_oom "()"]
    aligned_alloc_nonzero [of 16 160 memalign_oom "()"]
  by simp

text \<open>
  The code misses the alignment 0: aligned_alloc evaluates aSize % aAlignment before
  anything else, and a remainder by zero is undefined in C++ (the process is killed),
  where posix_memalign answers EINVAL and memalign promotes the alignment to
  sizeof(void*).  With alignment 0 and size 1 the size is not a multiple of the
  alignment, yet the call does not return nullptr.
\<close>

theorem aligned_alloc_zero_alignment_counterexample:
  "\<not> (\<forall>a n. \<not> unat a dvd unat n \<longrightarrow> aligned_alloc memalign_oom () a n = Inr (nullptr, ()))"
proof
  assume h: "\<forall>a n. \<not> unat a dvd unat n \<longrightarrow> aligned_alloc memalign_oom () a n = Inr (nullptr, ())"
  have "\<not> unat (0::size_t) dvd unat (1::size_t)" by simp
  with h have "aligned_alloc memalign_oom () 0 1 = Inr (nullptr, ())" by blast
  then show False by (simp add: aligned_alloc_def)
qed

section \<open>Claim about the cap on dirty pages\<close>

lemma Purge_loop_bound:
  "Purge_loop dc dirty_max s = Inr s1 \<Longrightarrow> mNumDirty s1 \<le> drop_bit 1 dirty_max"
proof (induction dc dirty_max s rule: Purge_loop.induct)
  case (1 dc dirty_max s)
  show ?case
  proof (cases "mNumDirty s > drop_bit 1 dirty_max")
    case True
    with "1.prems" obtain s0 where st: "Purge_step dc dirty_max s = Inr s0"
      and rec: "Purge_loop dc dirty_max s0 = Inr s1"
      by (subst (asm) Purge_loop.simps) (auto split: sum.splits)
    from "1.IH" [OF True st rec] show ?thesis .
  next
    case False
    with "1.prems" have "s1 = s" by (subst (asm) Purge_loop.simps) simp
    with False show ?thesis by (simp add: not_less)
  qed
qed

lemma Purge_group_mMaxDirty:
  "Purge_group dc chunk i (s, ch) = (i1, s1, ch1) \<Longrightarrow> mMaxDirty s1 = mMaxDirty s"
  by (auto simp: Purge_group_def Let_def pages_decommit_def madvise_free_def split: prod.splits)

lemma Purge_chunk_mMaxDirty:
  "Purge_chunk dc chunk dirty_max i sc = Inr sc1 \<Longrightarrow> mMaxDirty (fst sc1) = mMaxDirty (fst sc)"
proof (induction dc chunk dirty_max i sc rule: Purge_chunk.induct)
  case (1 dc chunk dirty_max i sc)
  show ?case
  proof (cases "ndirty (snd sc) > 0 \<and> \<not> i < hdr_npages \<and> \<not> unat chunk_npages \<le> i")
    case False
    with "1.prems" show ?thesis
      by (subst (asm) Purge_chunk.simps) (auto split: if_splits)
  next
    case guard: True
    show ?thesis
    proof (cases "map_bits (snd sc) i AND CHUNK_MAP_DIRTY \<noteq> 0")
      case dirty: True
      obtain i1 s4 ch1 where g: "Purge_group dc chunk i sc = (i1, s4, ch1)"
        by (cases "Purge_group dc chunk i sc") auto
      have keep: "mMaxDirty s4 = mMaxDirty (fst sc)"
        using g Purge_group_mMaxDirty [of dc chunk i "fst sc" "snd sc" i1 s4 ch1] by simp
      show ?thesis
      proof (cases "mNumDirty s4 \<le> drop_bit 1 dirty_max")
        case True
        with "1.prems" guard dirty g keep show ?thesis
          by (subst (asm) Purge_chunk.simps) auto
      next
        case False
        with "1.prems" guard dirty g have rec: "i1 \<noteq> 0"
          "Purge_chunk dc chunk dirty_max (i1 - 1) (s4, ch1) = Inr sc1"
          by (subst (asm) Purge_chunk.simps, auto split: if_splits)+
        have "mMaxDirty (fst sc1) = mMaxDirty (fst (s4, ch1))"
          using "1.IH"(1) [OF _ _ _ dirty g [symmetric] refl False rec(1) rec(2)] guard by auto
        with keep show ?thesis by simp
      qed
    next
      case clean: False
      with "1.prems" guard have rec: "i \<noteq> 0"
        "Purge_chunk dc chunk dirty_max (i - 1) sc = Inr sc1"
        by (subst (asm) Purge_chunk.simps, auto split: if_splits)+
      show ?thesis
        using "1.IH"(2) [OF _ _ _ clean rec(1) rec(2)] guard by auto
    qed
  qed
qed

lemma Purge_step_mMaxDirty:
  "Purge_step dc dirty_max s = Inr s1 \<Longrightarrow> mMaxDirty s1 = mMaxDirty s"
  by (auto simp: Purge_step_def Let_def diag_assert_def tree_Remove_def
      split: if_splits option.splits sum.splits dest!: Purge_chunk_mMaxDirty)

lemma Purge_loop_mMaxDirty:
  "Purge_loop dc dirty_max s = Inr s1 \<Longrightarrow> mMaxDirty s1 = mMaxDirty s"
proof (induction dc dirty_max s rule: Purge_loop.induct)
  case (1 dc dirty_max s)
  show ?case
  proof (cases "mNumDirty s > drop_bit 1 dirty_max")
    case True
    with "1.prems" obtain s0 where st: "Purge_step dc dirty_max s = Inr s0"
      and rec: "Purge_loop dc dirty_max s0 = Inr s1"
      by (subst (asm) Purge_loop.simps) (auto split: sum.splits)
    from "1.IH" [OF True st rec] Purge_step_mMaxDirty [OF st] show ?thesis by simp
  next
    case False
    with "1.prems" show ?thesis by (subst (asm) Purge_loop.simps) simp
  qed
qed

lemma drop_bit_1_le: "drop_bit 1 (w :: size_t) \<le> w"
  by (simp add: word_le_nat_alt drop_bit_eq_div unat_div)

lemma Purge_False_bound:
  assumes "Purge dc s False = Inr s1"
  shows "mNumDirty s1 \<le> drop_bit 1 (mMaxDirty s)" and "mMaxDirty s1 = mMaxDirty s"
proof -
  from assms have loop: "Purge_loop dc (mMaxDirty s) s = Inr s1"
    by (auto simp: Purge_def diag_assert_def split: if_splits)
  show "mNumDirty s1 \<le> drop_bit 1 (mMaxDirty s)" by (rule Purge_loop_bound [OF loop])
  show "mMaxDirty s1 = mMaxDirty s" by (rule Purge_loop_mMaxDirty [OF loop])
qed

text \<open>
  C3.  When DallocRun returns, the arena's count of dirty pages is at most its cap
  mMaxDirty.  DallocRun ends with the test mNumDirty > mMaxDirty and calls Purge(false)
  when it holds; the loop of Purge runs while mNumDirty exceeds mMaxDirty / 2, so after a
  free that pushed the count above the cap the count is at most half the cap.  The cap
  itself is not changed.
\<close>

theorem DallocRun_dirty_cap:
  "DallocRun dc s aRun aDirty = Inr s1 \<Longrightarrow>
     mNumDirty s1 \<le> mMaxDirty s1
     \<and> (\<forall>s3. DallocRun_coalesce dc s aRun aDirty = Inr s3 \<and> mNumDirty s3 > mMaxDirty s3
            \<longrightarrow> mNumDirty s1 \<le> drop_bit 1 (mMaxDirty s3) \<and> mMaxDirty s1 = mMaxDirty s3)"
proof -
  assume ret: "DallocRun dc s aRun aDirty = Inr s1"
  then obtain s3 where co: "DallocRun_coalesce dc s aRun aDirty = Inr s3"
    by (auto simp: DallocRun_def split: sum.splits)
  show ?thesis
  proof (cases "mNumDirty s3 > mMaxDirty s3")
    case True
    with ret co have p: "Purge dc s3 False = Inr s1" by (simp add: DallocRun_def)
    have b: "mNumDirty s1 \<le> drop_bit 1 (mMaxDirty s3)" and k: "mMaxDirty s1 = mMaxDirty s3"
      using Purge_False_bound [OF p] by simp_all
    have "drop_bit 1 (mMaxDirty s3) \<le> mMaxDirty s3" by (rule drop_bit_1_le)
    with b k co show ?thesis by auto
  next
    case False
    with ret co have "s1 = s3" by (simp add: DallocRun_def)
    with False co show ?thesis by (auto simp: not_less)
  qed
qed

theorem DallocRun_dirty_cap_witness:
  "(case DallocRun False three_pages_state 0x7f0000002000 True of
      Inl e \<Rightarrow> False
    | Inr s1 \<Rightarrow> mNumDirty s1 \<le> mMaxDirty s1)
   \<and> map_sum id mNumDirty (DallocRun_coalesce False three_pages_state 0x7f0000002000 True) = Inr 3
   \<and> mMaxDirty three_pages_state = 2"
proof -
  have co: "map_sum id mNumDirty
              (DallocRun_coalesce False three_pages_state 0x7f0000002000 True) = Inr 3"
    and m: "mMaxDirty three_pages_state = 2"
    by (simp_all add: model_defs small_cap_heap_def three_pages_state_def)
  have "isOK (DallocRun False three_pages_state 0x7f0000002000 True)"
    by (simp add: model_defs small_cap_heap_def three_pages_state_def isOK_def)
  then obtain s1 where r: "DallocRun False three_pages_state 0x7f0000002000 True = Inr s1"
    by (rule isOK_E)
  from DallocRun_dirty_cap [OF r] co m show ?thesis by (simp add: r)
qed

section \<open>Claim about shrinking a huge allocation\<close>

lemma huge_same_refl [simp]: "huge_same s s"
  by (simp add: huge_same_def)

lemma huge_same_trans: "huge_same s s1 \<Longrightarrow> huge_same s1 s2 \<Longrightarrow> huge_same s s2"
  by (simp add: huge_same_def)

lemma huge_same_os [simp]:
  "huge_same s (memset s p c n)" "huge_same s (pages_unmap s a n)"
  "huge_same s (pages_decommit s a n)" "huge_same s (pages_commit s a n)"
  "huge_same s (madvise_dontneed s a n)" "huge_same s (madvise_free s a n)"
  "huge_same s (base_node_dealloc s)"
  by (simp_all add: huge_same_def memset_def pages_unmap_def pages_decommit_def
      pages_commit_def madvise_dontneed_def madvise_free_def base_node_dealloc_def)

lemma huge_same_pages_map: "huge_same s (snd (pages_map s n))"
  by (simp add: huge_same_def pages_map_def memset_def split: list.splits)

lemma huge_same_pages_trim: "huge_same s (snd (pages_trim s a al l n))"
  by (simp add: huge_same_def pages_trim_def pages_unmap_def Let_def)

lemma huge_same_base_alloc: "huge_same s (snd (base_alloc s))"
  by (simp add: huge_same_def base_alloc_def)

lemma huge_same_base_node_alloc: "huge_same s (snd (base_node_alloc s))"
  by (simp add: huge_same_def base_node_alloc_def base_alloc_def)

lemma huge_same_rtree_Set: "huge_same s (snd (rtree_Set s a v))"
  by (simp add: huge_same_def rtree_Set_def base_alloc_def split: option.splits prod.splits)

lemma huge_same_pages_purge: "huge_same s (snd (pages_purge dc s a n f))"
  by (simp add: pages_purge_def)

lemma huge_same_chunk_record: "huge_same s (chunk_record dc s c n ct)"
proof -
  obtain ct1 s1 where a: "(if ct \<noteq> ZEROED_CHUNK
            then (case pages_purge dc s c n (ct = HUGE_CHUNK) of
                    (z, s1) \<Rightarrow> (if z then ZEROED_CHUNK else ct, s1))
            else (ct, s)) = (ct1, s1)" by (cases "(if ct \<noteq> ZEROED_CHUNK
            then (case pages_purge dc s c n (ct = HUGE_CHUNK) of
                    (z, s1) \<Rightarrow> (if z then ZEROED_CHUNK else ct, s1))
            else (ct, s))") auto
  have s1: "huge_same s s1"
    using a huge_same_pages_purge [of s dc c n "ct = HUGE_CHUNK"]
    by (auto split: if_splits prod.splits)
  obtain x s2 where b: "base_node_alloc s1 = (x, s2)" by (cases "base_node_alloc s1") auto
  have s2: "huge_same s1 s2" using huge_same_base_node_alloc [of s1] b by simp
  have "huge_same s2 (chunk_record dc s c n ct)"
    by (simp add: chunk_record_def a b Let_def huge_same_def base_node_dealloc_def)
  with s1 s2 show ?thesis by (blast intro: huge_same_trans)
qed

lemma huge_same_chunk_dealloc: "huge_same s (chunk_dealloc dc s c n ct)"
proof -
  have a: "huge_same s (snd (rtree_Unset s c))"
    by (simp add: rtree_Unset_def huge_same_rtree_Set)
  show ?thesis
    unfolding chunk_dealloc_def Let_def
    by (auto intro!: huge_same_trans [OF a] huge_same_chunk_record
        huge_same_trans [OF huge_same_pages_trim huge_same_chunk_record])
qed


lemma huge_same_chunk_recycle:
  "chunk_recycle dc s n al b = (r, z, s1) \<Longrightarrow> huge_same s s1"
proof -
  assume a: "chunk_recycle dc s n al b = (r, z, s1)"
  show ?thesis
  proof (cases "b \<or> n + al - chunksize < n \<or> szad_SearchOrNext (chunks_mmap s) (n + al - chunksize) = None")
    case True
    with a show ?thesis by (auto simp: chunk_recycle_def Let_def split: if_splits)
  next
    case False
    then obtain node where nd: "szad_SearchOrNext (chunks_mmap s) (n + al - chunksize) = Some node"
      by auto
    let ?lead = "ALIGNMENT_CEILING (addr node) al - addr node"
    let ?trail = "esize node - ?lead - n"
    let ?t1 = "remove1 node (chunks_mmap s)"
    let ?s1 = "s\<lparr>chunks_mmap := (if ?lead \<noteq> 0 then node\<lparr>esize := ?lead\<rparr> # ?t1 else ?t1)\<rparr>"
    obtain ok s2 where b2: "(if ?trail \<noteq> 0 \<and> \<not> (?lead = 0) then base_node_alloc ?s1 else (True, ?s1)) = (ok, s2)"
      by (cases "(if ?trail \<noteq> 0 \<and> \<not> (?lead = 0) then base_node_alloc ?s1 else (True, ?s1))") auto
    have h1: "huge_same s ?s1" by (simp add: huge_same_def)
    have h2: "huge_same ?s1 s2"
      using b2 huge_same_base_node_alloc [of ?s1] by (auto split: if_splits)
    have h12: "huge_same s s2" using h1 h2 by (rule huge_same_trans)
    show ?thesis
    proof (cases ok)
      case False
      with a nd b2 \<open>\<not> (b \<or> n + al - chunksize < n \<or> _)\<close>
      have "s1 = chunk_dealloc dc s2 (addr node + ?lead) n (chunk_type node)"
        by (simp add: chunk_recycle_def Let_def)
      with h12 huge_same_chunk_dealloc show ?thesis by (blast intro: huge_same_trans)
    next
      case True
      with a nd b2 \<open>\<not> (b \<or> n + al - chunksize < n \<or> _)\<close>
      have "huge_same s2 s1"
        by (auto simp: chunk_recycle_def Let_def huge_same_def base_node_dealloc_def
            pages_commit_def memset_def split: if_splits)
      with h12 show ?thesis by (rule huge_same_trans)
    qed
  qed
qed

lemma huge_same_slow_loop:
  "chunk_alloc_mmap_slow_loop s n al asz = (r, s1) \<Longrightarrow> huge_same s s1"
proof (induction s n al asz rule: chunk_alloc_mmap_slow_loop.induct)
  case (1 s sz alignment alloc_size)
  obtain pages sa where pm: "pages_map s alloc_size = (pages, sa)"
    by (cases "pages_map s alloc_size") auto
  have ha: "huge_same s sa" using huge_same_pages_map [of s alloc_size] pm by simp
  show ?case
  proof (cases "pages = nullptr")
    case True
    with "1.prems" pm ha show ?thesis
      by (subst (asm) chunk_alloc_mmap_slow_loop.simps) simp
  next
    case False
    let ?lead = "ALIGNMENT_CEILING pages alignment - pages"
    obtain ret sb where pt: "pages_trim sa pages alloc_size ?lead sz = (ret, sb)"
      by (cases "pages_trim sa pages alloc_size ?lead sz") auto
    have hb: "huge_same sa sb" using huge_same_pages_trim [of sa pages alloc_size ?lead sz] pt by simp
    have hab: "huge_same s sb" using ha hb by (rule huge_same_trans)
    show ?thesis
    proof (cases "ret = nullptr")
      case True
      with "1.prems" pm pt False have rec: "chunk_alloc_mmap_slow_loop sb sz alignment alloc_size = (r, s1)"
        by (subst (asm) chunk_alloc_mmap_slow_loop.simps) (simp add: Let_def)
      have "huge_same sb s1"
        using "1.IH" [OF pm [symmetric] False refl pt [symmetric] True rec] .
      with hab show ?thesis by (rule huge_same_trans)
    next
      case nz: False
      with "1.prems" pm pt False have "s1 = sb"
        by (subst (asm) chunk_alloc_mmap_slow_loop.simps) (simp add: Let_def)
      with hab show ?thesis by simp
    qed
  qed
qed

lemma huge_same_chunk_alloc_mmap:
  "chunk_alloc_mmap s n al = (r, s1) \<Longrightarrow> huge_same s s1"
proof -
  assume a: "chunk_alloc_mmap s n al = (r, s1)"
  obtain ret sa where pm: "pages_map s n = (ret, sa)" by (cases "pages_map s n") auto
  have ha: "huge_same s sa" using huge_same_pages_map [of s n] pm by simp
  show ?thesis
  proof (cases "ret \<noteq> nullptr \<and> ALIGNMENT_ADDR2OFFSET ret al \<noteq> 0")
    case False
    with a pm ha show ?thesis by (auto simp: chunk_alloc_mmap_def split: if_splits)
  next
    case True
    with a pm have "chunk_alloc_mmap_slow (pages_unmap sa ret n) n al = (r, s1)"
      by (simp add: chunk_alloc_mmap_def)
    then have "huge_same (pages_unmap sa ret n) s1"
      by (auto simp: chunk_alloc_mmap_slow_def Let_def split: if_splits dest: huge_same_slow_loop)
    with ha show ?thesis by (blast intro: huge_same_trans huge_same_os)
  qed
qed

lemma huge_same_chunk_alloc:
  "chunk_alloc dc s n al b = (r, z, s1) \<Longrightarrow> huge_same s s1"
proof -
  assume a: "chunk_alloc dc s n al b = (r, z, s1)"
  obtain r0 z0 sa where cr: "chunk_recycle dc s n al b = (r0, z0, sa)"
    by (cases "chunk_recycle dc s n al b") auto
  have ha: "huge_same s sa" using cr by (rule huge_same_chunk_recycle)
  obtain ret zeroed sb where mid:
    "(if r0 \<noteq> nullptr then (r0, z0, sa)
      else (case chunk_alloc_mmap sa n al of (r1, s2) \<Rightarrow> (r1, True, s2))) = (ret, zeroed, sb)"
    by (cases "(if r0 \<noteq> nullptr then (r0, z0, sa)
      else (case chunk_alloc_mmap sa n al of (r1, s2) \<Rightarrow> (r1, True, s2)))") auto
  have hb: "huge_same sa sb"
    using mid by (auto split: if_splits prod.splits dest: huge_same_chunk_alloc_mmap)
  have hab: "huge_same s sb" using ha hb by (rule huge_same_trans)
  show ?thesis
  proof (cases "ret \<noteq> nullptr \<and> b = False")
    case False
    with a cr mid have "s1 = sb" by (auto simp: chunk_alloc_def)
    with hab show ?thesis by simp
  next
    case True
    obtain ok sc where rs: "rtree_Set sb ret ret = (ok, sc)" by (cases "rtree_Set sb ret ret") auto
    have hc: "huge_same sb sc" using huge_same_rtree_Set [of sb ret ret] rs by simp
    from a cr mid True rs have "s1 = sc \<or> s1 = chunk_dealloc dc sc ret n UNKNOWN_CHUNK"
      by (auto simp: chunk_alloc_def split: if_splits)
    with hab hc huge_same_chunk_dealloc show ?thesis by (blast intro: huge_same_trans)
  qed
qed

lemma huge_palloc_failure:
  "huge_palloc dc s n al z = (nullptr, s1) \<Longrightarrow> huge_same s s1"
proof -
  assume a: "huge_palloc dc s n al z = (nullptr, s1)"
  show ?thesis
  proof (cases "CHUNK_CEILING n = 0")
    case True
    with a show ?thesis by (simp add: huge_palloc_def Let_def)
  next
    case nz: False
    obtain ok sa where bn: "base_node_alloc s = (ok, sa)" by (cases "base_node_alloc s") auto
    have ha: "huge_same s sa" using huge_same_base_node_alloc [of s] bn by simp
    show ?thesis
    proof (cases ok)
      case False
      with a nz bn ha show ?thesis by (simp add: huge_palloc_def Let_def)
    next
      case True
      obtain ret zd sb where ca: "chunk_alloc dc sa (CHUNK_CEILING n) al False = (ret, zd, sb)"
        by (cases "chunk_alloc dc sa (CHUNK_CEILING n) al False") auto
      have hb: "huge_same sa sb" using ca by (rule huge_same_chunk_alloc)
      from a nz bn True ca have "ret = nullptr \<and> s1 = base_node_dealloc sb"
        by (auto simp: huge_palloc_def Let_def split: if_splits)
      with ha hb show ?thesis by (blast intro: huge_same_trans huge_same_os)
    qed
  qed
qed

lemma huge_palloc_success:
  assumes "huge_palloc dc s n al z = (q, s1)" and "q \<noteq> nullptr"
  shows "huge s1 = \<lparr>addr = q, esize = PAGE_CEILING n, chunk_type = UNKNOWN_CHUNK\<rparr> # huge s
       \<and> huge_mapped s1 = huge_mapped s + CHUNK_CEILING n
       \<and> huge_allocated s1 = huge_allocated s + PAGE_CEILING n"
proof -
  from assms have nz: "CHUNK_CEILING n \<noteq> 0" by (auto simp: huge_palloc_def Let_def)
  obtain ok sa where bn: "base_node_alloc s = (ok, sa)" by (cases "base_node_alloc s") auto
  have ha: "huge_same s sa" using huge_same_base_node_alloc [of s] bn by simp
  from assms nz bn have ok: ok by (auto simp: huge_palloc_def Let_def split: if_splits)
  obtain ret zd sb where ca: "chunk_alloc dc sa (CHUNK_CEILING n) al False = (ret, zd, sb)"
    by (cases "chunk_alloc dc sa (CHUNK_CEILING n) al False") auto
  have hb: "huge_same sa sb" using ca by (rule huge_same_chunk_alloc)
  have hab: "huge_same s sb" using ha hb by (rule huge_same_trans)
  from assms nz bn ok ca have r: "ret = q"
    by (auto simp: huge_palloc_def Let_def split: if_splits)
  from assms nz bn ok ca r hab show ?thesis
    by (auto simp: huge_palloc_def Let_def huge_same_def chunk_ensure_zero_def memset_def
        pages_decommit_def opt_junk_def opt_zero_def split: if_splits)
qed

lemma huge_dalloc_mapped:
  assumes "huge_dalloc dc s p = Inr s1" and "ad_Search (huge s) p = Some node"
  shows "huge_mapped s1 = huge_mapped s - CHUNK_CEILING (esize node)
       \<and> huge_allocated s1 = huge_allocated s - esize node
       \<and> huge s1 = remove1 node (huge s)"
proof -
  let ?s1 = "s\<lparr>huge := remove1 node (huge s), huge_ndalloc := huge_ndalloc s + 1,
               huge_allocated := huge_allocated s - esize node,
               huge_mapped := huge_mapped s - CHUNK_CEILING (esize node)\<rparr>"
  let ?s2 = "chunk_dealloc dc ?s1 (addr node) (CHUNK_CEILING (esize node)) HUGE_CHUNK"
  from assms have "s1 = base_node_dealloc ?s2" by (simp add: huge_dalloc_def Let_def)
  moreover have "huge_same ?s1 ?s2" by (rule huge_same_chunk_dealloc)
  ultimately show ?thesis by (simp add: huge_same_def base_node_dealloc_def)
qed

lemma ceilings_val:
  "CHUNK_CEILING chunksize = chunksize" "CHUNK_CEILING (3 * chunksize) = 3 * chunksize"
  "PAGE_CEILING chunksize = chunksize" "\<not> chunksize \<le> arena_maxclass"
  "chunksize \<noteq> 0" "arena_maxclass < 3 * chunksize" "3 * chunksize \<noteq> chunksize"
  "chunksize + chunksize - 3 * chunksize = - chunksize"
  by (simp_all add: CHUNK_CEILING_def PAGE_CEILING_def consts_val)

lemma base_offset: "CHUNK_ADDR2BASE p = p \<Longrightarrow> CHUNK_ADDR2OFFSET p = 0"
proof -
  assume "CHUNK_ADDR2BASE p = p"
  then have eq: "p = p AND NOT chunksize_mask" by (simp add: CHUNK_ADDR2BASE_def)
  have "p AND chunksize_mask = (p AND NOT chunksize_mask) AND chunksize_mask"
    by (rule arg_cong [where f = "\<lambda>x. x AND chunksize_mask", OF eq])
  also have "\<dots> = p AND (NOT chunksize_mask AND chunksize_mask)" by (simp only: and.assoc)
  also have "\<dots> = 0" by simp
  finally show ?thesis by (simp add: CHUNK_ADDR2OFFSET_def)
qed

text \<open>
  C5, as the code has it.  realloc of a live huge allocation of 3 * chunksize to chunksize
  does not shrink in place: huge_ralloc stays in place only when the old and the new size
  have the same chunk ceiling.  Here it allocates a new huge block with huge_malloc while
  the old one is still allocated, copies chunksize bytes and frees the old block with
  idalloc; a null result of huge_malloc is returned as it is.  When the new block is not
  null and differs from the old one, the huge mapped counter has decreased by
  2 * chunksize and the allocated counter too, with either purge strategy, and the block
  at the returned address is recorded with size chunksize.
\<close>

theorem huge_shrink_moves:
  assumes live: "isalloc s p = Inr (3 * chunksize)" and base: "CHUNK_ADDR2BASE p = p"
    and nonnull: "p \<noteq> nullptr"
    and ret: "moz_realloc dc s p chunksize = Inr (q, s1)"
  shows "(\<exists>s0. huge_malloc dc s chunksize False = (q, s0)
            \<and> (if q = nullptr then s1 = s0
                else idalloc dc (memcpy s0 q p chunksize) p = Inr s1))
       \<and> (q \<noteq> nullptr \<and> q \<noteq> p \<longrightarrow>
            huge_mapped s1 = huge_mapped s - 2 * chunksize
            \<and> huge_allocated s1 = huge_allocated s - 2 * chunksize
            \<and> ad_Search (huge s1) q
                = Some \<lparr>addr = q, esize = chunksize, chunk_type = UNKNOWN_CHUNK\<rparr>)"
proof -
  obtain r s0 where hm: "huge_malloc dc s chunksize False = (r, s0)"
    by (cases "huge_malloc dc s chunksize False") auto
  from ret live nonnull have hr: "huge_ralloc dc s p chunksize (3 * chunksize) = Inr (q, s1)"
    by (simp add: moz_realloc_def iralloc_def ceilings_val)
  have moved: "huge_ralloc dc s p chunksize (3 * chunksize)
      = (if r = nullptr then Inr (nullptr, s0)
         else (case idalloc dc (memcpy s0 r p chunksize) p of
                 Inl e \<Rightarrow> Inl e
               | Inr s2 \<Rightarrow> Inr (r, s2)))"
  proof -
    have cond: "(arena_maxclass < 3 * chunksize
        \<and> CHUNK_CEILING chunksize = CHUNK_CEILING (3 * chunksize)) = False"
      by (simp add: CHUNK_CEILING_def consts_val)
    have lt: "chunksize < 3 * chunksize" by (simp add: consts_val)
    show ?thesis
      apply (simp only: huge_ralloc_def cond if_False hm prod.case)
      apply (simp add: Let_def lt)
      done
  qed
  from hr moved have rq: "r = q"
    by (auto split: if_splits sum.splits)
  from hr moved rq have fin: "if q = nullptr then s1 = s0
      else idalloc dc (memcpy s0 q p chunksize) p = Inr s1"
    by (auto split: if_splits sum.splits)
  have part1: "\<exists>s0. huge_malloc dc s chunksize False = (q, s0)
            \<and> (if q = nullptr then s1 = s0
                else idalloc dc (memcpy s0 q p chunksize) p = Inr s1)"
    using hm rq fin by blast
  have part2: "huge_mapped s1 = huge_mapped s - 2 * chunksize
            \<and> huge_allocated s1 = huge_allocated s - 2 * chunksize
            \<and> ad_Search (huge s1) q
                = Some \<lparr>addr = q, esize = chunksize, chunk_type = UNKNOWN_CHUNK\<rparr>"
    if qn: "q \<noteq> nullptr" and qp: "q \<noteq> p"
  proof -
    let ?new = "\<lparr>addr = q, esize = chunksize, chunk_type = UNKNOWN_CHUNK\<rparr>"
    from live base obtain node where nd: "ad_Search (huge s) p = Some node"
      and sz: "esize node = 3 * chunksize"
      by (auto simp: isalloc_def Let_def split: option.splits)
    from nd have na: "addr node = p" and nin: "node \<in> set (huge s)"
      by (auto simp: ad_Search_def find_Some_iff)
    from hm rq qn have suc: "huge s0 = ?new # huge s
       \<and> huge_mapped s0 = huge_mapped s + chunksize
       \<and> huge_allocated s0 = huge_allocated s + chunksize"
      using huge_palloc_success [of dc s chunksize chunksize False q s0]
      by (simp add: huge_malloc_def ceilings_val)
    let ?m = "memcpy s0 q p chunksize"
    have hs: "huge ?m = ?new # huge s" "huge_mapped ?m = huge_mapped s + chunksize"
      "huge_allocated ?m = huge_allocated s + chunksize"
      using suc by (simp_all add: memcpy_def)
    have off: "CHUNK_ADDR2OFFSET p = 0" using base by (rule base_offset)
    from fin qn off have hd: "huge_dalloc dc ?m p = Inr s1" by (simp add: idalloc_def)
    have srch: "ad_Search (huge ?m) p = Some node"
      using hs(1) nd qp by (auto simp: ad_Search_def)
    from huge_dalloc_mapped [OF hd srch] hs sz
    have a: "huge_mapped s1 = huge_mapped s - 2 * chunksize"
      and b: "huge_allocated s1 = huge_allocated s - 2 * chunksize"
      and c: "huge s1 = remove1 node (?new # huge s)"
      by (simp_all add: ceilings_val)
    have neq: "node \<noteq> ?new" using na qp by auto
    with c have c1: "huge s1 = ?new # remove1 node (huge s)" by auto
    have d: "ad_Search (huge s1) q = Some ?new" by (simp add: c1 ad_Search_def)
    show ?thesis using a b d by simp
  qed
  from part1 part2 show ?thesis by blast
qed

theorem huge_shrink_moves_witness:
  "isalloc huge3_state 0x7f0000000000 = Inr (3 * chunksize)
   \<and> map_sum id fst (moz_realloc True huge3_state 0x7f0000000000 chunksize) = Inr 0x7f0000400000
   \<and> map_sum id (huge_mapped \<circ> snd) (moz_realloc True huge3_state 0x7f0000000000 chunksize)
       = Inr (huge_mapped huge3_state - 2 * chunksize)"
proof -
  have live: "isalloc huge3_state 0x7f0000000000 = Inr (3 * chunksize)"
    and base: "CHUNK_ADDR2BASE 0x7f0000000000 = 0x7f0000000000"
    and nn: "(0x7f0000000000 :: ptr) \<noteq> nullptr"
    by (simp_all add: model_defs two_chunk_heap_def huge3_state_def)
  have q: "map_sum id fst (moz_realloc True huge3_state 0x7f0000000000 chunksize)
      = Inr 0x7f0000400000"
    by (simp add: model_defs two_chunk_heap_def huge3_state_def)
  then obtain s1 where r: "moz_realloc True huge3_state 0x7f0000000000 chunksize
      = Inr (0x7f0000400000, s1)"
    by (cases "moz_realloc True huge3_state 0x7f0000000000 chunksize") auto
  have "(0x7f0000400000 :: ptr) \<noteq> nullptr \<and> (0x7f0000400000 :: ptr) \<noteq> 0x7f0000000000"
    by (simp add: nullptr_def)
  with huge_shrink_moves [OF live base nn r]
  have "huge_mapped s1 = huge_mapped huge3_state - 2 * chunksize" by blast
  with live q r show ?thesis by simp
qed

text \<open>
  The claim as stated fails: in the heap above, malloc(3 * chunksize) returns
  0x7f0000000000 and realloc of it to chunksize returns 0x7f0000400000.
\<close>

theorem huge_shrink_in_place_counterexample:
  "map_sum id fst (moz_malloc True two_chunk_heap (3 * chunksize)) = Inr 0x7f0000000000
   \<and> huge3_state = snd (projr (moz_malloc True two_chunk_heap (3 * chunksize)))
   \<and> map_sum id fst (moz_realloc True huge3_state 0x7f0000000000 chunksize) = Inr 0x7f0000400000
   \<and> (0x7f0000400000 :: ptr) \<noteq> 0x7f0000000000"
proof -
  have a: "map_sum id fst (moz_malloc True two_chunk_heap (3 * chunksize)) = Inr 0x7f0000000000"
    by (simp add: model_defs two_chunk_heap_def)
  then have b: "huge3_state = snd (projr (moz_malloc True two_chunk_heap (3 * chunksize)))"
    by (cases "moz_malloc True two_chunk_heap (3 * chunksize)") (auto simp: huge3_state_def)
  have c: "map_sum id fst (moz_realloc True huge3_state 0x7f0000000000 chunksize)
      = Inr 0x7f0000400000"
    by (simp add: model_defs two_chunk_heap_def huge3_state_def)
  from a b c show ?thesis by simp
qed

section \<open>Claim about the recycle budget\<close>

lemma recycle_same_refl [simp]: "recycle_same s s"
  by (simp add: recycle_same_def)




lemma recycle_same_pages_map: "recycle_same s (snd (pages_map s n))"
  by (simp add: recycle_same_def pages_map_def memset_def split: list.splits)






































end
